theory Spec2Isabelle
  imports Complex_Main
begin

section \<open>Data model\<close>

text \<open>
  The Go structs of the controller and of the Kubernetes API it handles, as records.
  A pointer that the code dereferences without a nil check is modelled by the value it
  points to; a pointer that the code tests against nil is an \<open>option\<close>. A slice that a
  function builds or is handed as an argument is the list of its elements. A slice or a
  map that is a member of a spec is compared by \<open>cmp.Equal\<close> or \<open>reflect.DeepEqual\<close>, which
  tell a nil one from an empty one: such a slice is an \<open>option\<close> of a list, such a map an
  \<open>option\<close> of an association list, with \<open>None\<close> for nil. A map that is only looked up in
  is a partial function. Field names carry a prefix for the struct they belong to.
\<close>

type_synonym 'a slice = "'a list option"

text \<open>The elements a \<open>range\<close> loop visits and \<open>append\<close> copies: none for a nil slice.\<close>

definition elems :: "'a slice \<Rightarrow> 'a list" where
  "elems s = (case s of None \<Rightarrow> [] | Some xs \<Rightarrow> xs)"

subsection \<open>Quantities (k8s.io/apimachinery/pkg/api/resource)\<close>

datatype Format = DecimalExponent | BinarySI | DecimalSI

text \<open>
  \<open>resource.Quantity\<close> has four members: the scaled integer \<open>i\<close> (\<open>value\<close> and \<open>scale\<close>,
  standing for \<open>value * 10 ^ scale\<close>), the arbitrary-precision decimal \<open>d\<close> (a pointer to
  an \<open>inf.Dec\<close> with an unscaled integer and a scale, standing for
  \<open>unscaled * 10 ^ (- scale)\<close>; nil while the integer form suffices), the cached
  string form \<open>s\<close>, and the \<open>Format\<close>.
\<close>

record Quantity =
  q_i_value :: int
  q_i_scale :: int
  q_d :: "(int \<times> int) option"
  q_s :: string
  q_Format :: Format

text \<open>\<open>AsDec\<close>: the decimal the quantity stands for, as mantissa and decimal exponent.\<close>

definition Quantity_AsDec :: "Quantity \<Rightarrow> int \<times> int" where
  "Quantity_AsDec q =
     (case q_d q of
        Some (unscaled, scale) \<Rightarrow> (unscaled, - scale)
      | None \<Rightarrow> (q_i_value q, q_i_scale q))"

text \<open>
  Comparison of two decimals \<open>m * 10 ^ e\<close>: both are brought to the smaller exponent and
  the mantissas are compared. The result is -1, 0 or 1 as in Go.
\<close>

definition Dec_Cmp :: "int \<times> int \<Rightarrow> int \<times> int \<Rightarrow> int" where
  "Dec_Cmp x y =
     (let e = min (snd x) (snd y);
          a = fst x * 10 ^ nat (snd x - e);
          b = fst y * 10 ^ nat (snd y - e)
      in if a = b then 0 else if a < b then - 1 else 1)"

text \<open>\<open>Quantity.Cmp\<close>: numeric comparison, whichever representation each side holds.\<close>

definition Quantity_Cmp :: "Quantity \<Rightarrow> Quantity \<Rightarrow> int" where
  "Quantity_Cmp x y = Dec_Cmp (Quantity_AsDec x) (Quantity_AsDec y)"

text \<open>The number a quantity stands for.\<close>

definition Quantity_num :: "Quantity \<Rightarrow> rat" where
  "Quantity_num q = (case Quantity_AsDec q of (m, e) \<Rightarrow> of_int m * 10 powi e)"

subsection \<open>Volumes, mounts and containers (k8s.io/api/core/v1)\<close>

record VolumeMount =
  vm_Name :: string
  vm_ReadOnly :: bool
  vm_MountPath :: string
  vm_SubPath :: string

record EmptyDirVolumeSource =
  ed_Medium :: string
  ed_SizeLimit :: "Quantity option"

text \<open>
  \<open>core.VolumeSource\<close> is a struct of optional members, one per kind of volume. The
  members kept here are the ones the repository's code and examples use; no function
  below looks inside a volume source.
\<close>

record VolumeSource =
  vs_HostPath :: "string option"
  vs_EmptyDir :: "EmptyDirVolumeSource option"
  vs_PersistentVolumeClaim :: "string option"

record Volume =
  vol_Name :: string
  vol_VolumeSource :: VolumeSource

datatype PullPolicy = PullUnset | PullAlways | PullNever | PullIfNotPresent

record EnvVar =
  env_Name :: string
  env_Value :: string
  env_FieldPath :: "string option"

text \<open>\<open>core.ResourceList\<close> is a Go map from resource name to quantity.\<close>

type_synonym ResourceList = "(string \<times> Quantity) list option"

record ResourceRequirements =
  rr_Limits :: ResourceList
  rr_Requests :: ResourceList

record Container =
  c_Name :: string
  c_Image :: string
  c_ImagePullPolicy :: PullPolicy
  c_Args :: "string list"
  c_Env :: "EnvVar list"
  c_Resources :: ResourceRequirements
  c_VolumeMounts :: "VolumeMount list"

subsection \<open>Object metadata and the two custom resources (apis/stash/v1alpha1)\<close>

record ObjectMeta =
  om_Name :: string
  om_Namespace :: string
  om_UID :: string
  om_ResourceVersion :: string
  om_Labels :: "string \<rightharpoonup> string"
  om_Annotations :: "string \<rightharpoonup> string"

record LabelSelectorRequirement =
  lsr_Key :: string
  lsr_Operator :: string
  lsr_Values :: "string slice"

record LabelSelector =
  sel_MatchLabels :: "(string \<times> string) list option"
  sel_MatchExpressions :: "LabelSelectorRequirement slice"

text \<open>
  A file group names a path, its tags and its retention rules; of the rules, the ones the
  example manifest sets.
\<close>

record RetentionPolicy =
  rp_KeepLast :: int
  rp_Prune :: bool

record FileGroup =
  fg_Path :: string
  fg_Tags :: "string slice"
  fg_RetentionPolicy :: RetentionPolicy

record LocalSpec =
  ls_VolumeSource :: VolumeSource
  ls_Path :: string

text \<open>
  The backend is a local path or a remote store, with the name of the secret that holds
  the credentials. The remote stores are summarised by the name of the bucket or
  container; the code below only asks whether \<open>Local\<close> is nil.
\<close>

record Backend =
  be_StorageSecretName :: string
  be_Local :: "LocalSpec option"
  be_Remote :: "string option"

record ResticSpec =
  rs_Selector :: LabelSelector
  rs_FileGroups :: "FileGroup slice"
  rs_Backend :: Backend
  rs_Schedule :: string
  rs_VolumeMounts :: "VolumeMount slice"
  rs_Resources :: ResourceRequirements

record Restic =
  r_Meta :: ObjectMeta
  r_Spec :: ResticSpec

type_synonym RecoveryPhase = string

definition RecoveryPending :: RecoveryPhase where "RecoveryPending = ''Pending''"
definition RecoveryRunning :: RecoveryPhase where "RecoveryRunning = ''Running''"
definition RecoverySucceeded :: RecoveryPhase where "RecoverySucceeded = ''Succeeded''"
definition RecoveryFailed :: RecoveryPhase where "RecoveryFailed = ''Failed''"

record RecoverySpec =
  rcs_Restic :: string
  rcs_NodeName :: string
  rcs_Volumes :: "Volume slice"

record RecoveryStatus =
  rst_Phase :: RecoveryPhase

record Recovery =
  rec_Meta :: ObjectMeta
  rec_Spec :: RecoverySpec
  rec_Status :: RecoveryStatus

record LocalTypedReference =
  ltr_Kind :: string
  ltr_Name :: string
  ltr_APIVersion :: string

section \<open>The sidecar and volume mutator (pkg/util)\<close>

definition StashContainer :: string where "StashContainer = ''stash''"
definition LocalVolumeName :: string where "LocalVolumeName = ''stash-local''"
definition ScratchDirVolumeName :: string where "ScratchDirVolumeName = ''stash-scratchdir''"
definition PodinfoVolumeName :: string where "PodinfoVolumeName = ''stash-podinfo''"
definition StashInitializerName :: string where "StashInitializerName = ''stash.appscode.com''"

text \<open>\<open>docker.ImageOperator\<close> of pkg/docker.\<close>

definition ImageOperator :: string where "ImageOperator = ''appscode/stash''"

text \<open>\<open>GetString\<close>: a nil map and a missing key both give the empty string.\<close>

definition GetString :: "(string \<rightharpoonup> string) \<Rightarrow> string \<Rightarrow> string" where
  "GetString m key = (case m key of None \<Rightarrow> [] | Some v \<Rightarrow> v)"

text \<open>
  \<open>CreateSidecarContainer\<close>. The annotation key \<open>api.VersionTag\<close> is a constant of the API
  package and is taken as the parameter \<open>versionTag\<close>. The statements follow the
  source in order: the tag override, the container literal, the canary branch, the loop
  over the policy's mounts, the local backend's mount.
\<close>

definition CreateSidecarContainer ::
  "string \<Rightarrow> Restic \<Rightarrow> string \<Rightarrow> LocalTypedReference \<Rightarrow> Container" where
  "CreateSidecarContainer versionTag r tag0 workload =
     (let tag = (case om_Annotations (r_Meta r) versionTag of Some v \<Rightarrow> v | None \<Rightarrow> tag0);
          sidecar0 = \<lparr>
            c_Name = StashContainer,
            c_Image = ImageOperator @ '':'' @ tag,
            c_ImagePullPolicy = PullIfNotPresent,
            c_Args = [''schedule'',
                      ''--restic-name='' @ om_Name (r_Meta r),
                      ''--workload-kind='' @ ltr_Kind workload,
                      ''--workload-name='' @ ltr_Name workload],
            c_Env = [\<lparr>env_Name = ''NODE_NAME'', env_Value = [],
                       env_FieldPath = Some ''spec.nodeName''\<rparr>,
                     \<lparr>env_Name = ''POD_NAME'', env_Value = [],
                       env_FieldPath = Some ''metadata.name''\<rparr>],
            c_Resources = rs_Resources (r_Spec r),
            c_VolumeMounts = [\<lparr>vm_Name = ScratchDirVolumeName, vm_ReadOnly = False,
                                 vm_MountPath = ''/tmp'', vm_SubPath = []\<rparr>,
                               \<lparr>vm_Name = PodinfoVolumeName, vm_ReadOnly = False,
                                 vm_MountPath = ''/etc/stash'', vm_SubPath = []\<rparr>]\<rparr>;
          sidecar1 = (if tag = ''canary''
                      then sidecar0\<lparr>c_ImagePullPolicy := PullAlways,
                                    c_Args := c_Args sidecar0 @ [''--v=5'']\<rparr>
                      else sidecar0\<lparr>c_Args := c_Args sidecar0 @ [''--v=3'']\<rparr>);
          sidecar2 = foldl (\<lambda>sc srcVol.
                        sc\<lparr>c_VolumeMounts := c_VolumeMounts sc @
                          [\<lparr>vm_Name = vm_Name srcVol, vm_ReadOnly = True,
                            vm_MountPath = vm_MountPath srcVol,
                            vm_SubPath = vm_SubPath srcVol\<rparr>]\<rparr>)
                      sidecar1 (elems (rs_VolumeMounts (r_Spec r)))
      in case be_Local (rs_Backend (r_Spec r)) of
           Some local \<Rightarrow>
             sidecar2\<lparr>c_VolumeMounts := c_VolumeMounts sidecar2 @
               [\<lparr>vm_Name = LocalVolumeName, vm_ReadOnly = False,
                 vm_MountPath = ls_Path local, vm_SubPath = []\<rparr>]\<rparr>
         | None \<Rightarrow> sidecar2)"

text \<open>
  \<open>core_util.UpsertVolume\<close> of the kutil library: the first volume with the new volume's
  name is replaced in place; when there is none the new volume is appended.
\<close>

fun UpsertVolume :: "Volume list \<Rightarrow> Volume \<Rightarrow> Volume list" where
  "UpsertVolume [] nv = [nv]"
| "UpsertVolume (vol # volumes) nv =
     (if vol_Name vol = vol_Name nv then nv # volumes else vol # UpsertVolume volumes nv)"

text \<open>
  The search loop of \<open>MergeLocalVolume\<close>: the index of the first volume with the given
  name. The source keeps it in \<open>oldPos\<close>, with -1 for "not found"; here that is \<open>None\<close>.
\<close>

fun findVolume :: "string \<Rightarrow> Volume list \<Rightarrow> nat option" where
  "findVolume name [] = None"
| "findVolume name (vol # volumes) =
     (if vol_Name vol = name then Some 0
      else (case findVolume name volumes of None \<Rightarrow> None | Some i \<Rightarrow> Some (Suc i)))"

text \<open>
  What the slice handed to \<open>UpsertVolume\<close> holds afterwards: a replacement is written into
  its backing array and shows; an appended volume lies beyond its length and does not.
\<close>

fun UpsertVolume_argument :: "Volume list \<Rightarrow> Volume \<Rightarrow> Volume list" where
  "UpsertVolume_argument [] nv = []"
| "UpsertVolume_argument (vol # volumes) nv =
     (if vol_Name vol = vol_Name nv then nv # volumes
      else vol # UpsertVolume_argument volumes nv)"

text \<open>
  \<open>MergeLocalVolume\<close>. \<open>old\<close> may be nil; \<open>new\<close> is dereferenced without a check. The source
  works on the backing array of the slice it is handed, so the result is a pair: the
  slice returned, and what the caller's slice, of its old length, holds after the call.
  \<open>volumes[oldPos] = ...\<close> writes in place. \<open>append(volumes[:oldPos], volumes[oldPos+1:]...)\<close>
  moves the tail down by one inside the same array: the returned slice is one shorter,
  and the caller's slice keeps its former last element in its last place.
\<close>

definition MergeLocalVolume ::
  "Volume list \<Rightarrow> Restic option \<Rightarrow> Restic \<Rightarrow> Volume list \<times> Volume list" where
  "MergeLocalVolume volumes old new =
     (let oldPos = (case old of
                      None \<Rightarrow> None
                    | Some ol \<Rightarrow>
                        (case be_Local (rs_Backend (r_Spec ol)) of
                           None \<Rightarrow> None
                         | Some _ \<Rightarrow> findVolume LocalVolumeName volumes))
      in case be_Local (rs_Backend (r_Spec new)) of
           Some local \<Rightarrow>
             (case oldPos of
                Some i \<Rightarrow>
                  (volumes[i := \<lparr>vol_Name = LocalVolumeName,
                                  vol_VolumeSource = ls_VolumeSource local\<rparr>],
                   volumes[i := \<lparr>vol_Name = LocalVolumeName,
                                  vol_VolumeSource = ls_VolumeSource local\<rparr>])
              | None \<Rightarrow>
                  (UpsertVolume volumes \<lparr>vol_Name = LocalVolumeName,
                                          vol_VolumeSource = ls_VolumeSource local\<rparr>,
                   UpsertVolume_argument volumes \<lparr>vol_Name = LocalVolumeName,
                                          vol_VolumeSource = ls_VolumeSource local\<rparr>))
         | None \<Rightarrow>
             (case oldPos of
                Some i \<Rightarrow>
                  (take i volumes @ drop (i + 1) volumes,
                   take i volumes @ drop (i + 1) volumes @ [last volumes])
              | None \<Rightarrow> (volumes, volumes)))"

text \<open>The slice \<open>MergeLocalVolume\<close> returns, which is what its callers go on with.\<close>

definition merged :: "Volume list \<Rightarrow> Restic option \<Rightarrow> Restic \<Rightarrow> Volume list" where
  "merged volumes old new = fst (MergeLocalVolume volumes old new)"






definition effectiveTag :: "string \<Rightarrow> Restic \<Rightarrow> string \<Rightarrow> string" where
  "effectiveTag versionTag r tag =
     (case om_Annotations (r_Meta r) versionTag of Some v \<Rightarrow> v | None \<Rightarrow> tag)"

definition localMount :: "Restic \<Rightarrow> VolumeMount list" where
  "localMount r =
     (case be_Local (rs_Backend (r_Spec r)) of
        Some local \<Rightarrow> [\<lparr>vm_Name = LocalVolumeName, vm_ReadOnly = False,
                         vm_MountPath = ls_Path local, vm_SubPath = []\<rparr>]
      | None \<Rightarrow> [])"

section \<open>Errors, events and the derived Job\<close>

text \<open>
  A Go \<open>error\<close> is either a status error of the API server, which carries a reason, or
  any other error, which carries only its message.
\<close>

datatype StatusReason =
  StatusReasonUnknown | StatusReasonNotFound | StatusReasonAlreadyExists
  | StatusReasonConflict | StatusReasonInvalid

datatype error = StatusError StatusReason string | GoError string

fun ReasonForError :: "error \<Rightarrow> StatusReason" where
  "ReasonForError (StatusError reason _) = reason"
| "ReasonForError (GoError _) = StatusReasonUnknown"

definition IsAlreadyExists :: "error \<Rightarrow> bool" where
  "IsAlreadyExists err = (ReasonForError err = StatusReasonAlreadyExists)"

definition IsNotFound :: "error \<Rightarrow> bool" where
  "IsNotFound err = (ReasonForError err = StatusReasonNotFound)"

fun Error :: "error \<Rightarrow> string" where
  "Error (StatusError _ msg) = msg"
| "Error (GoError msg) = msg"

datatype EventType = EventTypeNormal | EventTypeWarning

text \<open>The reasons of pkg/eventer that the recovery controller uses.\<close>

datatype EventReason =
  EventReasonInvalidRecovery | EventReasonFailedToRecover | EventReasonJobCreated
  | EventReasonFailedToDelete

record ObjectReference =
  or_APIVersion :: string
  or_Kind :: string
  or_Namespace :: string
  or_Name :: string
  or_UID :: string
  or_ResourceVersion :: string

record Event =
  e_Object :: ObjectReference
  e_Type :: EventType
  e_Reason :: EventReason
  e_Message :: string

text \<open>
  The string constants of the API package that the code below copies into the objects it
  builds. Their values are not fixed here.
\<close>

record ApiConstants =
  api_VersionTag :: string
  api_SchemeGroupVersion :: string
  api_ResourceKindRecovery :: string

text \<open>
  Modelled from the spec: \<open>Recovery.ObjectReference\<close> of the API package, which is not among
  the sources. The event recorder is handed a reference that names the object the event
  is about.
\<close>

definition Recovery_ObjectReference :: "ApiConstants \<Rightarrow> Recovery \<Rightarrow> ObjectReference" where
  "Recovery_ObjectReference api r =
     \<lparr>or_APIVersion = api_SchemeGroupVersion api,
      or_Kind = api_ResourceKindRecovery api,
      or_Namespace = om_Namespace (rec_Meta r),
      or_Name = om_Name (rec_Meta r),
      or_UID = om_UID (rec_Meta r),
      or_ResourceVersion = om_ResourceVersion (rec_Meta r)\<rparr>"

record OwnerReference =
  ow_APIVersion :: string
  ow_Kind :: string
  ow_Name :: string
  ow_UID :: string

text \<open>
  A \<open>batch.Job\<close>, flattened: object metadata, and the pod template's spec with its one
  container.
\<close>

record Job =
  j_Name :: string
  j_Namespace :: string
  j_OwnerReferences :: "OwnerReference list"
  j_Container :: Container
  j_RestartPolicy :: string
  j_Volumes :: "Volume list"
  j_NodeName :: string
  j_ServiceAccountName :: string

definition CreateRecoveryJob :: "ApiConstants \<Rightarrow> Recovery \<Rightarrow> Restic \<Rightarrow> string \<Rightarrow> Job" where
  "CreateRecoveryJob api recovery restic tag =
     (let job = \<lparr>
            j_Name = ''stash-'' @ om_Name (rec_Meta recovery),
            j_Namespace = om_Namespace (rec_Meta recovery),
            j_OwnerReferences =
              [\<lparr>ow_APIVersion = api_SchemeGroupVersion api,
                ow_Kind = api_ResourceKindRecovery api,
                ow_Name = om_Name (rec_Meta recovery),
                ow_UID = om_UID (rec_Meta recovery)\<rparr>],
            j_Container = \<lparr>
              c_Name = StashContainer,
              c_Image = ImageOperator @ '':'' @ tag,
              c_ImagePullPolicy = PullUnset,
              c_Args = [''recover'',
                        ''--recovery-name='' @ om_Name (rec_Meta recovery),
                        ''--v=10''],
              c_Env = [],
              c_Resources = \<lparr>rr_Limits = None, rr_Requests = None\<rparr>,
              c_VolumeMounts = elems (rs_VolumeMounts (r_Spec restic)) @
                [\<lparr>vm_Name = ScratchDirVolumeName, vm_ReadOnly = False,
                  vm_MountPath = ''/tmp'', vm_SubPath = []\<rparr>]\<rparr>,
            j_RestartPolicy = ''OnFailure'',
            j_Volumes = elems (rcs_Volumes (rec_Spec recovery)) @
              [\<lparr>vol_Name = ScratchDirVolumeName,
                vol_VolumeSource = \<lparr>vs_HostPath = None,
                  vs_EmptyDir = Some \<lparr>ed_Medium = [], ed_SizeLimit = None\<rparr>,
                  vs_PersistentVolumeClaim = None\<rparr>\<rparr>],
            j_NodeName = rcs_NodeName (rec_Spec recovery),
            j_ServiceAccountName = []\<rparr>
      in case be_Local (rs_Backend (r_Spec restic)) of
           Some local \<Rightarrow>
             job\<lparr>j_Container := (j_Container job)\<lparr>c_VolumeMounts :=
                    c_VolumeMounts (j_Container job) @
                      [\<lparr>vm_Name = LocalVolumeName, vm_ReadOnly = False,
                        vm_MountPath = ls_Path local, vm_SubPath = []\<rparr>]\<rparr>,
                  j_Volumes := j_Volumes job @
                    [\<lparr>vol_Name = LocalVolumeName,
                      vol_VolumeSource = ls_VolumeSource local\<rparr>]\<rparr>
         | None \<Rightarrow> job)"

section \<open>The work queue (k8s.io/client-go/util/workqueue)\<close>

text \<open>
  The rate-limiting queue of client-go, by the contract of its operations: \<open>queue\<close> is the
  order of the keys waiting for a worker, \<open>dirty\<close> the keys that need processing,
  \<open>processing\<close> the keys a worker holds, \<open>failures\<close> the rate limiter's count per key
  (what \<open>NumRequeues\<close> reports), and \<open>waiting\<close> the keys handed to the delayed add, which
  enter the queue when their backoff has passed.
\<close>

record WorkQueue =
  wq_queue :: "string list"
  wq_dirty :: "string list"
  wq_processing :: "string list"
  wq_shuttingDown :: bool
  wq_failures :: "string \<Rightarrow> nat"
  wq_waiting :: "string list"

definition wq_Add :: "string \<Rightarrow> WorkQueue \<Rightarrow> WorkQueue" where
  "wq_Add item q =
     (if wq_shuttingDown q then q
      else if item \<in> set (wq_dirty q) then q
      else if item \<in> set (wq_processing q) then q\<lparr>wq_dirty := wq_dirty q @ [item]\<rparr>
      else q\<lparr>wq_dirty := wq_dirty q @ [item], wq_queue := wq_queue q @ [item]\<rparr>)"

text \<open>
  \<open>Get\<close> blocks while the queue is empty and not shutting down: that is the result
  \<open>None\<close>. Otherwise it returns the key (nil when the queue is drained and shutting down),
  the \<open>quit\<close> flag, and the queue.
\<close>

definition wq_Get :: "WorkQueue \<Rightarrow> (string option \<times> bool \<times> WorkQueue) option" where
  "wq_Get q =
     (case wq_queue q of
        [] \<Rightarrow> (if wq_shuttingDown q then Some (None, True, q) else None)
      | item # rest \<Rightarrow>
          Some (Some item, False,
                q\<lparr>wq_queue := rest,
                  wq_processing := wq_processing q @ [item],
                  wq_dirty := removeAll item (wq_dirty q)\<rparr>))"

definition wq_Done :: "string \<Rightarrow> WorkQueue \<Rightarrow> WorkQueue" where
  "wq_Done item q =
     (let q1 = q\<lparr>wq_processing := removeAll item (wq_processing q)\<rparr>
      in if item \<in> set (wq_dirty q1) then q1\<lparr>wq_queue := wq_queue q1 @ [item]\<rparr> else q1)"

definition wq_Forget :: "string \<Rightarrow> WorkQueue \<Rightarrow> WorkQueue" where
  "wq_Forget item q = q\<lparr>wq_failures := (wq_failures q)(item := 0)\<rparr>"

definition wq_NumRequeues :: "WorkQueue \<Rightarrow> string \<Rightarrow> int" where
  "wq_NumRequeues q item = int (wq_failures q item)"

text \<open>
  \<open>AddRateLimited\<close> asks the rate limiter when to add the key, which counts one more
  failure for it, and hands the key to the delayed add; a queue that is shutting down
  drops it.
\<close>

definition wq_AddRateLimited :: "string \<Rightarrow> WorkQueue \<Rightarrow> WorkQueue" where
  "wq_AddRateLimited item q =
     (let q1 = q\<lparr>wq_failures := (wq_failures q)(item := Suc (wq_failures q item))\<rparr>
      in if wq_shuttingDown q1 then q1 else q1\<lparr>wq_waiting := wq_waiting q1 @ [item]\<rparr>)"

section \<open>The recovery controller (pkg/controller)\<close>

record Options =
  opt_SidecarImageTag :: string
  opt_EnableRBAC :: bool
  opt_MaxNumRequeues :: int

text \<open>
  What the controller reaches through its clients, and cannot see the code of: the
  Restic client's \<open>Get\<close>, the validity checks of the API package, the RBAC helper of the
  controller, the faults the API server may answer a Job creation with, and the
  informer's cache.
\<close>

record Env =
  env_options :: Options
  env_api :: ApiConstants
  env_Restics_Get :: "string \<Rightarrow> string \<Rightarrow> error + Restic"
  env_Restic_IsValid :: "Restic \<Rightarrow> error option"
  env_Recovery_IsValid :: "Recovery \<Rightarrow> error option"
  env_ensureRecoveryRBAC :: "string \<Rightarrow> string \<Rightarrow> error option"
  env_Jobs_Create_fault :: "Job \<Rightarrow> error option"
  env_recIndexer_GetByKey :: "string \<Rightarrow> error + Recovery option"

text \<open>The calls the controller makes to the API server, each with the error it got.\<close>

datatype ApiCall =
  CallResticsGet string string "error option"
  | CallEnsureRecoveryRBAC string string "error option"
  | CallJobsCreate Job "error option"
  | CallSetRecoveryStatusPhase string string RecoveryPhase

text \<open>
  The state the controller acts on: the Jobs held by the API server, the phase last
  written for each Recovery (by namespace and name), the recorded events, the calls
  made, the errors handed to the process-wide handler, and the queue of Recovery keys.
\<close>

record World =
  w_jobs :: "Job list"
  w_recoveryPhase :: "string \<times> string \<rightharpoonup> RecoveryPhase"
  w_events :: "Event list"
  w_calls :: "ApiCall list"
  w_handledErrors :: "error list"
  w_recQueue :: WorkQueue

definition recorder_Event ::
  "ObjectReference \<Rightarrow> EventType \<Rightarrow> EventReason \<Rightarrow> string \<Rightarrow> World \<Rightarrow> World" where
  "recorder_Event ref ty reason msg w =
     w\<lparr>w_events := w_events w @
         [\<lparr>e_Object = ref, e_Type = ty, e_Reason = reason, e_Message = msg\<rparr>]\<rparr>"

text \<open>
  Modelled from the spec: \<open>stash_util.SetRecoveryStatusPhase\<close> of the client utilities, which
  is not among the sources. The status writer sets the phase of the object and returns
  nothing; a Recovery that is gone is not an error.
\<close>

definition SetRecoveryStatusPhase :: "Recovery \<Rightarrow> RecoveryPhase \<Rightarrow> World \<Rightarrow> World" where
  "SetRecoveryStatusPhase r phase w =
     w\<lparr>w_recoveryPhase := (w_recoveryPhase w)
           ((om_Namespace (rec_Meta r), om_Name (rec_Meta r)) \<mapsto> phase),
       w_calls := w_calls w @
         [CallSetRecoveryStatusPhase (om_Namespace (rec_Meta r)) (om_Name (rec_Meta r)) phase]\<rparr>"

definition Restics_Get :: "Env \<Rightarrow> string \<Rightarrow> string \<Rightarrow> World \<Rightarrow> (error + Restic) \<times> World" where
  "Restics_Get env ns name w =
     (let res = env_Restics_Get env ns name
      in (res, w\<lparr>w_calls := w_calls w @
            [CallResticsGet ns name (case res of Inl err \<Rightarrow> Some err | Inr _ \<Rightarrow> None)]\<rparr>))"

definition ensureRecoveryRBAC :: "Env \<Rightarrow> string \<Rightarrow> string \<Rightarrow> World \<Rightarrow> error option \<times> World" where
  "ensureRecoveryRBAC env name ns w =
     (let res = env_ensureRecoveryRBAC env name ns
      in (res, w\<lparr>w_calls := w_calls w @ [CallEnsureRecoveryRBAC name ns res]\<rparr>))"

text \<open>
  \<open>Jobs(namespace).Create\<close>: the API server refuses a second Job of the same name in the
  namespace with "already exists"; any other fault leaves the collection as it is; a Job
  that is accepted is stored and returned.
\<close>

definition jobKey :: "Job \<Rightarrow> string \<times> string" where
  "jobKey j = (j_Namespace j, j_Name j)"

definition Jobs_Create :: "Env \<Rightarrow> string \<Rightarrow> Job \<Rightarrow> World \<Rightarrow> (error + Job) \<times> World" where
  "Jobs_Create env ns job w =
     (let res =
        (if (ns, j_Name job) \<in> set (map jobKey (w_jobs w))
         then Inl (StatusError StatusReasonAlreadyExists
                     (''jobs.batch '' @ j_Name job @ '' already exists''))
         else (case env_Jobs_Create_fault env job of
                 Some err \<Rightarrow> Inl err
               | None \<Rightarrow> Inr job));
          w1 = w\<lparr>w_calls := w_calls w @
                 [CallJobsCreate job (case res of Inl err \<Rightarrow> Some err | Inr _ \<Rightarrow> None)]\<rparr>
      in case res of
           Inl err \<Rightarrow> (Inl err, w1)
         | Inr j \<Rightarrow> (Inr j, w1\<lparr>w_jobs := w_jobs w1 @ [j]\<rparr>))"

text \<open>
  \<open>runRecoveryJob\<close>, statement by statement. The result is the returned error (\<open>None\<close> for
  nil) and the state the calls leave. Log lines are not part of the state.
\<close>

definition runRecoveryJob :: "Env \<Rightarrow> Recovery \<Rightarrow> World \<Rightarrow> error option \<times> World" where
  "runRecoveryJob env rec w =
     (if rst_Phase (rec_Status rec) = RecoverySucceeded \<or>
         rst_Phase (rec_Status rec) = RecoveryRunning
      then (None, w)
      else
        (case Restics_Get env (om_Namespace (rec_Meta rec)) (rcs_Restic (rec_Spec rec)) w of
           (Inl err, w1) \<Rightarrow>
             (Some err,
              recorder_Event (Recovery_ObjectReference (env_api env) rec) EventTypeWarning
                EventReasonFailedToRecover (Error err)
                (SetRecoveryStatusPhase rec RecoveryFailed w1))
         | (Inr restic, w1) \<Rightarrow>
             (case env_Restic_IsValid env restic of
                Some err \<Rightarrow>
                  (Some err,
                   recorder_Event (Recovery_ObjectReference (env_api env) rec) EventTypeWarning
                     EventReasonFailedToRecover (Error err)
                     (SetRecoveryStatusPhase rec RecoveryFailed w1))
              | None \<Rightarrow>
                  (let job0 = CreateRecoveryJob (env_api env) rec restic
                                (opt_SidecarImageTag (env_options env));
                       (rbacErr, w2) =
                         (if opt_EnableRBAC (env_options env)
                          then ensureRecoveryRBAC env (j_Name job0) (j_Namespace job0) w1
                          else (None, w1));
                       job1 = (if opt_EnableRBAC (env_options env)
                               then job0\<lparr>j_ServiceAccountName := j_Name job0\<rparr>
                               else job0)
                   in case rbacErr of
                        Some err \<Rightarrow>
                          (Some (GoError (''error ensuring rbac for recovery job '' @ j_Name job0
                                   @ '', reason: '' @ Error err @ [CHR 0x0A])), w2)
                      | None \<Rightarrow>
                          (case Jobs_Create env (om_Namespace (rec_Meta rec)) job1 w2 of
                             (Inl err, w3) \<Rightarrow>
                               (if IsAlreadyExists err then (None, w3)
                                else
                                  (Some err,
                                   recorder_Event (Recovery_ObjectReference (env_api env) rec)
                                     EventTypeWarning EventReasonFailedToRecover (Error err)
                                     (SetRecoveryStatusPhase rec RecoveryFailed w3)))
                           | (Inr job, w3) \<Rightarrow>
                               (None,
                                SetRecoveryStatusPhase rec RecoveryRunning
                                  (recorder_Event (Recovery_ObjectReference (env_api env) rec)
                                     EventTypeNormal EventReasonJobCreated
                                     (''Recovery job created: '' @ j_Name job) w3)))))))"

text \<open>
  \<open>runRecoveryInjector\<close>: the key is looked up in the informer's cache; a key that is gone
  is not an error.
\<close>

definition runRecoveryInjector :: "Env \<Rightarrow> string \<Rightarrow> World \<Rightarrow> error option \<times> World" where
  "runRecoveryInjector env key w =
     (case env_recIndexer_GetByKey env key of
        Inl err \<Rightarrow> (Some err, w)
      | Inr None \<Rightarrow> (None, w)
      | Inr (Some d) \<Rightarrow> runRecoveryJob env d w)"

definition HandleError :: "error \<Rightarrow> World \<Rightarrow> World" where
  "HandleError err w = w\<lparr>w_handledErrors := w_handledErrors w @ [err]\<rparr>"

definition onQueue :: "(WorkQueue \<Rightarrow> WorkQueue) \<Rightarrow> World \<Rightarrow> World" where
  "onQueue f w = w\<lparr>w_recQueue := f (w_recQueue w)\<rparr>"

text \<open>
  \<open>processNextRecovery\<close>. \<open>None\<close> is a \<open>Get\<close> that blocks. The deferred \<open>Done\<close> runs last on
  every path after the key was taken.
\<close>

definition processNextRecovery :: "Env \<Rightarrow> World \<Rightarrow> (bool \<times> World) option" where
  "processNextRecovery env w =
     (case wq_Get (w_recQueue w) of
        None \<Rightarrow> None
      | Some (None, quit, q1) \<Rightarrow> Some (False, w\<lparr>w_recQueue := q1\<rparr>)
      | Some (Some key, quit, q1) \<Rightarrow>
          (if quit then Some (False, w\<lparr>w_recQueue := q1\<rparr>)
           else
             (case runRecoveryInjector env key (w\<lparr>w_recQueue := q1\<rparr>) of
                (None, w1) \<Rightarrow>
                  Some (True, onQueue (wq_Done key) (onQueue (wq_Forget key) w1))
              | (Some err, w1) \<Rightarrow>
                  (if wq_NumRequeues (w_recQueue w1) key < opt_MaxNumRequeues (env_options env)
                   then Some (True,
                          onQueue (wq_Done key) (onQueue (wq_AddRateLimited key) w1))
                   else Some (True,
                          onQueue (wq_Done key)
                            (HandleError err (onQueue (wq_Forget key) w1)))))))"

section \<open>Comparing specs (pkg/util)\<close>

text \<open>
  \<open>ResticEqual\<close> hands the two specs to \<open>cmp.Equal\<close> with one option: a comparer for
  \<open>resource.Quantity\<close> that holds when \<open>Cmp\<close> gives 0. \<open>cmp.Equal\<close> walks both values
  in step. Two pointers are equal when both are nil or both point to equal values; two
  structs when their fields are equal; two slices when both are nil, or neither is and
  they have equal elements in the same order; two maps when both are nil, or neither is
  and they have the same keys with equal values; and wherever the values are quantities
  the comparer decides. The functions below are that walk, one per struct on the way
  from a \<open>ResticSpec\<close> to its quantities. Slices whose elements hold no quantity are
  compared by the equality of the model, which is that of the walk.
\<close>

definition Quantity_equal :: "Quantity \<Rightarrow> Quantity \<Rightarrow> bool" where
  "Quantity_equal x y = (Quantity_Cmp x y = 0)"

text \<open>The entries of two non-nil maps: the same keys, with equal values.\<close>

definition entries_equal ::
  "('v \<Rightarrow> 'v \<Rightarrow> bool) \<Rightarrow> (string \<times> 'v) list \<Rightarrow> (string \<times> 'v) list \<Rightarrow> bool" where
  "entries_equal eq m1 m2 =
     (list_all (\<lambda>k. case (map_of m1 k, map_of m2 k) of
                       (Some x, Some y) \<Rightarrow> eq x y
                     | _ \<Rightarrow> False) (map fst m1) \<and>
      list_all (\<lambda>k. map_of m1 k \<noteq> None) (map fst m2))"

definition go_map_equal ::
  "('v \<Rightarrow> 'v \<Rightarrow> bool) \<Rightarrow> (string \<times> 'v) list option \<Rightarrow> (string \<times> 'v) list option \<Rightarrow> bool"
  where
  "go_map_equal eq m1 m2 =
     (case (m1, m2) of
        (None, None) \<Rightarrow> True
      | (Some a, Some b) \<Rightarrow> entries_equal eq a b
      | _ \<Rightarrow> False)"

definition EmptyDir_equal :: "EmptyDirVolumeSource \<Rightarrow> EmptyDirVolumeSource \<Rightarrow> bool" where
  "EmptyDir_equal a b =
     (ed_Medium a = ed_Medium b \<and> rel_option Quantity_equal (ed_SizeLimit a) (ed_SizeLimit b))"

definition VolumeSource_equal :: "VolumeSource \<Rightarrow> VolumeSource \<Rightarrow> bool" where
  "VolumeSource_equal a b =
     (vs_HostPath a = vs_HostPath b \<and>
      rel_option EmptyDir_equal (vs_EmptyDir a) (vs_EmptyDir b) \<and>
      vs_PersistentVolumeClaim a = vs_PersistentVolumeClaim b)"

definition LocalSpec_equal :: "LocalSpec \<Rightarrow> LocalSpec \<Rightarrow> bool" where
  "LocalSpec_equal a b =
     (VolumeSource_equal (ls_VolumeSource a) (ls_VolumeSource b) \<and> ls_Path a = ls_Path b)"

definition Backend_equal :: "Backend \<Rightarrow> Backend \<Rightarrow> bool" where
  "Backend_equal a b =
     (be_StorageSecretName a = be_StorageSecretName b \<and>
      rel_option LocalSpec_equal (be_Local a) (be_Local b) \<and>
      be_Remote a = be_Remote b)"

definition ResourceRequirements_equal ::
  "ResourceRequirements \<Rightarrow> ResourceRequirements \<Rightarrow> bool" where
  "ResourceRequirements_equal a b =
     (go_map_equal Quantity_equal (rr_Limits a) (rr_Limits b) \<and>
      go_map_equal Quantity_equal (rr_Requests a) (rr_Requests b))"

definition LabelSelector_equal :: "LabelSelector \<Rightarrow> LabelSelector \<Rightarrow> bool" where
  "LabelSelector_equal a b =
     (go_map_equal (=) (sel_MatchLabels a) (sel_MatchLabels b) \<and>
      sel_MatchExpressions a = sel_MatchExpressions b)"

definition ResticSpec_equal :: "ResticSpec \<Rightarrow> ResticSpec \<Rightarrow> bool" where
  "ResticSpec_equal a b =
     (LabelSelector_equal (rs_Selector a) (rs_Selector b) \<and>
      rs_FileGroups a = rs_FileGroups b \<and>
      Backend_equal (rs_Backend a) (rs_Backend b) \<and>
      rs_Schedule a = rs_Schedule b \<and>
      rs_VolumeMounts a = rs_VolumeMounts b \<and>
      ResourceRequirements_equal (rs_Resources a) (rs_Resources b))"

definition ResticEqual :: "Restic option \<Rightarrow> Restic option \<Rightarrow> bool" where
  "ResticEqual old new =
     (let oldSpec = map_option r_Spec old;
          newSpec = map_option r_Spec new
      in rel_option ResticSpec_equal oldSpec newSpec)"

text \<open>
  \<open>RecoveryEqual\<close> hands the two specs to \<open>reflect.DeepEqual\<close>, which compares every member
  of every struct, the unexported members of a quantity among them, and tells a nil slice
  from an empty one: that is equality of the modelled values.
\<close>

definition RecoveryEqual :: "Recovery option \<Rightarrow> Recovery option \<Rightarrow> bool" where
  "RecoveryEqual old new =
     (let oldSpec = map_option rec_Spec old;
          newSpec = map_option rec_Spec new
      in oldSpec = newSpec)"

subsection \<open>What a spec says, quantities read as numbers\<close>

text \<open>
  The comparison the specification asks for, in its own terms: of a policy only the spec
  counts, a quantity counts as the number it stands for, a map as what it assigns to each
  key, and everything else as it is written. \<open>ResticSpec_value\<close> is the spec read that way.
  These functions follow the specification, not the code; the code's comparison is
  measured against them below.
\<close>

definition ResourceList_value :: "ResourceList \<Rightarrow> (string \<rightharpoonup> rat) option" where
  "ResourceList_value m = map_option (\<lambda>al. map_option Quantity_num \<circ> map_of al) m"

type_synonym EmptyDirValue = "string \<times> rat option"
type_synonym VolumeSourceValue = "string option \<times> EmptyDirValue option \<times> string option"
type_synonym LocalSpecValue = "VolumeSourceValue \<times> string"
type_synonym BackendValue = "string \<times> LocalSpecValue option \<times> string option"
type_synonym LabelSelectorValue =
  "(string \<rightharpoonup> string) option \<times> LabelSelectorRequirement slice"
type_synonym ResourceListValue = "(string \<rightharpoonup> rat) option"
type_synonym ResticSpecValue =
  "LabelSelectorValue \<times> FileGroup slice \<times> BackendValue \<times> string \<times> VolumeMount slice \<times>
   ResourceListValue \<times> ResourceListValue"

definition EmptyDir_value :: "EmptyDirVolumeSource \<Rightarrow> EmptyDirValue" where
  "EmptyDir_value ed = (ed_Medium ed, map_option Quantity_num (ed_SizeLimit ed))"

definition VolumeSource_value :: "VolumeSource \<Rightarrow> VolumeSourceValue" where
  "VolumeSource_value vs =
     (vs_HostPath vs, map_option EmptyDir_value (vs_EmptyDir vs), vs_PersistentVolumeClaim vs)"

definition LocalSpec_value :: "LocalSpec \<Rightarrow> LocalSpecValue" where
  "LocalSpec_value l = (VolumeSource_value (ls_VolumeSource l), ls_Path l)"

definition Backend_value :: "Backend \<Rightarrow> BackendValue" where
  "Backend_value b =
     (be_StorageSecretName b, map_option LocalSpec_value (be_Local b), be_Remote b)"

definition LabelSelector_value :: "LabelSelector \<Rightarrow> LabelSelectorValue" where
  "LabelSelector_value sel =
     (map_option map_of (sel_MatchLabels sel), sel_MatchExpressions sel)"

definition ResticSpec_value :: "ResticSpec \<Rightarrow> ResticSpecValue" where
  "ResticSpec_value spec =
     (LabelSelector_value (rs_Selector spec),
      rs_FileGroups spec,
      Backend_value (rs_Backend spec),
      rs_Schedule spec,
      rs_VolumeMounts spec,
      ResourceList_value (rr_Limits (rs_Resources spec)),
      ResourceList_value (rr_Requests (rs_Resources spec)))"

section \<open>The workload check (pkg/util)\<close>

text \<open>The workload kinds of the API package.\<close>

definition KindDeployment :: string where "KindDeployment = ''Deployment''"
definition KindReplicaSet :: string where "KindReplicaSet = ''ReplicaSet''"
definition KindReplicationController :: string where
  "KindReplicationController = ''ReplicationController''"
definition KindStatefulSet :: string where "KindStatefulSet = ''StatefulSet''"
definition KindDaemonSet :: string where "KindDaemonSet = ''DaemonSet''"

definition recognizedKinds :: "string list" where
  "recognizedKinds = [KindDeployment, KindReplicaSet, KindReplicationController,
                      KindStatefulSet, KindDaemonSet]"

text \<open>
  The typed clients of the Kubernetes client set that \<open>WorkloadExists\<close> calls. Each \<open>Get\<close>
  takes the namespace and the name; only its error is looked at.
\<close>

record KubeClient =
  kc_Deployments_Get :: "string \<Rightarrow> string \<Rightarrow> error option"
  kc_ReplicaSets_Get :: "string \<Rightarrow> string \<Rightarrow> error option"
  kc_ReplicationControllers_Get :: "string \<Rightarrow> string \<Rightarrow> error option"
  kc_StatefulSets_Get :: "string \<Rightarrow> string \<Rightarrow> error option"
  kc_DaemonSets_Get :: "string \<Rightarrow> string \<Rightarrow> error option"

text \<open>
  \<open>WorkloadExists\<close>. \<open>LocalTypedReference.Canonicalize\<close> belongs to the API package and is
  taken as a parameter: it returns an error, or the reference with its kind rewritten.
  The \<open>default\<close> branch of the switch builds an error value and drops it, so that branch
  falls through to the final \<open>return nil\<close>.
\<close>

definition WorkloadExists ::
  "(LocalTypedReference \<Rightarrow> error + LocalTypedReference) \<Rightarrow> KubeClient \<Rightarrow> string \<Rightarrow>
   LocalTypedReference \<Rightarrow> error option" where
  "WorkloadExists Canonicalize k8sClient namespace workload0 =
     (case Canonicalize workload0 of
        Inl err \<Rightarrow> Some err
      | Inr workload \<Rightarrow>
          (if ltr_Kind workload = KindDeployment
           then kc_Deployments_Get k8sClient namespace (ltr_Name workload)
           else if ltr_Kind workload = KindReplicaSet
           then kc_ReplicaSets_Get k8sClient namespace (ltr_Name workload)
           else if ltr_Kind workload = KindReplicationController
           then kc_ReplicationControllers_Get k8sClient namespace (ltr_Name workload)
           else if ltr_Kind workload = KindStatefulSet
           then kc_StatefulSets_Get k8sClient namespace (ltr_Name workload)
           else if ltr_Kind workload = KindDaemonSet
           then kc_DaemonSets_Get k8sClient namespace (ltr_Name workload)
           else None))"

section \<open>The informer's update handler (pkg/controller)\<close>

text \<open>
  The handlers receive values of type \<open>interface{}\<close>. \<open>cache.MetaNamespaceKeyFunc\<close> gives
  \<open>namespace/name\<close>, or the name alone when the namespace is empty, and an error for a
  value without object metadata.
\<close>

datatype Obj = ObjRecovery Recovery | ObjRestic Restic | ObjOther string

definition MetaNamespaceKey :: "ObjectMeta \<Rightarrow> string" where
  "MetaNamespaceKey meta =
     (if om_Namespace meta \<noteq> [] then om_Namespace meta @ ''/'' @ om_Name meta
      else om_Name meta)"

fun MetaNamespaceKeyFunc :: "Obj \<Rightarrow> error + string" where
  "MetaNamespaceKeyFunc (ObjRecovery r) = Inr (MetaNamespaceKey (rec_Meta r))"
| "MetaNamespaceKeyFunc (ObjRestic r) = Inr (MetaNamespaceKey (r_Meta r))"
| "MetaNamespaceKeyFunc (ObjOther _) = Inl (GoError ''object has no meta'')"

text \<open>
  \<open>UpdateFunc\<close> of \<open>initRecoveryWatcher\<close>: both values must be Recoveries; an invalid new
  object gets a warning event; a valid one whose spec is not \<open>RecoveryEqual\<close> to the old
  one has its key added to the queue.
\<close>

definition UpdateFunc :: "Env \<Rightarrow> Obj \<Rightarrow> Obj \<Rightarrow> World \<Rightarrow> World" where
  "UpdateFunc env old new w =
     (case old of
        ObjRecovery oldObj \<Rightarrow>
          (case new of
             ObjRecovery newObj \<Rightarrow>
               (case env_Recovery_IsValid env newObj of
                  Some err \<Rightarrow>
                    recorder_Event (Recovery_ObjectReference (env_api env) newObj)
                      EventTypeWarning EventReasonInvalidRecovery (''Reason '' @ Error err) w
                | None \<Rightarrow>
                    (if \<not> RecoveryEqual (Some oldObj) (Some newObj)
                     then (case MetaNamespaceKeyFunc new of
                             Inr key \<Rightarrow> onQueue (wq_Add key) w
                           | Inl _ \<Rightarrow> w)
                     else w))
           | _ \<Rightarrow> w)
      | _ \<Rightarrow> w)"

section \<open>Observations on a run\<close>

text \<open>
  What a run of \<open>runRecoveryJob\<close> added to the state: the calls and events beyond those
  already there, the Job it submits, the events it records, and the state that any
  number of runs, one after the other, leave.
\<close>

definition newCalls :: "World \<Rightarrow> World \<Rightarrow> ApiCall list" where
  "newCalls w w' = drop (length (w_calls w)) (w_calls w')"

definition newEvents :: "World \<Rightarrow> World \<Rightarrow> Event list" where
  "newEvents w w' = drop (length (w_events w)) (w_events w')"

definition warningEvent :: "Env \<Rightarrow> Recovery \<Rightarrow> error \<Rightarrow> Event" where
  "warningEvent env rec err =
     \<lparr>e_Object = Recovery_ObjectReference (env_api env) rec, e_Type = EventTypeWarning,
      e_Reason = EventReasonFailedToRecover, e_Message = Error err\<rparr>"

definition recKey :: "Recovery \<Rightarrow> string \<times> string" where
  "recKey rec = (om_Namespace (rec_Meta rec), om_Name (rec_Meta rec))"

definition derivedJob :: "Env \<Rightarrow> Recovery \<Rightarrow> Restic \<Rightarrow> Job" where
  "derivedJob env rec restic =
     (let job0 = CreateRecoveryJob (env_api env) rec restic (opt_SidecarImageTag (env_options env))
      in if opt_EnableRBAC (env_options env)
         then job0\<lparr>j_ServiceAccountName := j_Name job0\<rparr> else job0)"

definition createdEvent :: "Env \<Rightarrow> Recovery \<Rightarrow> Job \<Rightarrow> Event" where
  "createdEvent env rec job =
     \<lparr>e_Object = Recovery_ObjectReference (env_api env) rec, e_Type = EventTypeNormal,
      e_Reason = EventReasonJobCreated, e_Message = ''Recovery job created: '' @ j_Name job\<rparr>"

definition rbacCalls :: "Env \<Rightarrow> Recovery \<Rightarrow> error option \<Rightarrow> ApiCall list" where
  "rbacCalls env rec res =
     (if opt_EnableRBAC (env_options env)
      then [CallEnsureRecoveryRBAC (''stash-'' @ om_Name (rec_Meta rec))
              (om_Namespace (rec_Meta rec)) res]
      else [])"

fun reconcileAll :: "(Env \<times> Recovery) list \<Rightarrow> World \<Rightarrow> World" where
  "reconcileAll [] w = w"
| "reconcileAll ((env, rec) # runs) w = reconcileAll runs (snd (runRecoveryJob env rec w))"

section \<open>Example objects\<close>

text \<open>Concrete objects, in the shape of the repository's example manifests.\<close>

definition exLocalSpec :: LocalSpec where
  "exLocalSpec = \<lparr>ls_VolumeSource = \<lparr>vs_HostPath = None,
                     vs_EmptyDir = Some \<lparr>ed_Medium = [], ed_SizeLimit = None\<rparr>,
                     vs_PersistentVolumeClaim = None\<rparr>, ls_Path = ''/repo''\<rparr>"

definition exMeta :: "string \<Rightarrow> ObjectMeta" where
  "exMeta name = \<lparr>om_Name = name, om_Namespace = ''default'', om_UID = ''uid-1'',
                   om_ResourceVersion = ''1'', om_Labels = Map.empty,
                   om_Annotations = Map.empty\<rparr>"

definition exRestic :: "LocalSpec option \<Rightarrow> Restic" where
  "exRestic local =
     \<lparr>r_Meta = exMeta ''statefulset-restic'',
      r_Spec = \<lparr>rs_Selector = \<lparr>sel_MatchLabels = Some [(''app'', ''statefulset-demo'')],
                                sel_MatchExpressions = None\<rparr>,
                rs_FileGroups = Some [\<lparr>fg_Path = ''/source/data'', fg_Tags = None,
                                   fg_RetentionPolicy = \<lparr>rp_KeepLast = 5, rp_Prune = True\<rparr>\<rparr>],
                rs_Backend = \<lparr>be_StorageSecretName = ''statefulset-secret'', be_Local = local,
                               be_Remote = (case local of None \<Rightarrow> Some ''bucket'' | Some _ \<Rightarrow> None)\<rparr>,
                rs_Schedule = ''@every 1m'',
                rs_VolumeMounts = Some [\<lparr>vm_Name = ''source-data'', vm_ReadOnly = False,
                                     vm_MountPath = ''/source/data'', vm_SubPath = []\<rparr>],
                rs_Resources = \<lparr>rr_Limits = None, rr_Requests = None\<rparr>\<rparr>\<rparr>"

text \<open>The example policy under other metadata and with a memory request.\<close>

definition exResticRequesting :: "string \<Rightarrow> Quantity \<Rightarrow> Restic" where
  "exResticRequesting uid q =
     (exRestic (Some exLocalSpec))
       \<lparr>r_Meta := (exMeta ''statefulset-restic'')\<lparr>om_UID := uid\<rparr>,
        r_Spec := (r_Spec (exRestic (Some exLocalSpec)))
          \<lparr>rs_Resources := \<lparr>rr_Limits = None, rr_Requests = Some [(''memory'', q)]\<rparr>\<rparr>\<rparr>"

definition exVolume :: "string \<Rightarrow> Volume" where
  "exVolume name = \<lparr>vol_Name = name,
                     vol_VolumeSource = \<lparr>vs_HostPath = None,
                       vs_EmptyDir = Some \<lparr>ed_Medium = [], ed_SizeLimit = None\<rparr>,
                       vs_PersistentVolumeClaim = None\<rparr>\<rparr>"

definition exApi :: ApiConstants where
  "exApi = \<lparr>api_VersionTag = ''restic.appscode.com/tag'',
            api_SchemeGroupVersion = ''stash.appscode.com/v1alpha1'',
            api_ResourceKindRecovery = ''Recovery''\<rparr>"

definition exOptions :: Options where
  "exOptions = \<lparr>opt_SidecarImageTag = ''0.7.0'', opt_EnableRBAC = True, opt_MaxNumRequeues = 5\<rparr>"

definition exRecovery :: "RecoveryPhase \<Rightarrow> string \<Rightarrow> Recovery" where
  "exRecovery phase restic =
     \<lparr>rec_Meta = exMeta ''demo'',
      rec_Spec = \<lparr>rcs_Restic = restic, rcs_NodeName = ''node-1'',
                  rcs_Volumes = Some [exVolume ''source-data'']\<rparr>,
      rec_Status = \<lparr>rst_Phase = phase\<rparr>\<rparr>"

definition exNotFound :: error where
  "exNotFound = StatusError StatusReasonNotFound ''restics.stash.appscode.com not found''"

definition exEnv :: Env where
  "exEnv =
     \<lparr>env_options = exOptions,
      env_api = exApi,
      env_Restics_Get = (\<lambda>ns name.
         if ns = ''default'' \<and> name = ''statefulset-restic''
         then Inr (exRestic (Some exLocalSpec)) else Inl exNotFound),
      env_Restic_IsValid = (\<lambda>r. None),
      env_Recovery_IsValid = (\<lambda>r.
         if rcs_Restic (rec_Spec r) = [] then Some (GoError ''restic name is missing'') else None),
      env_ensureRecoveryRBAC = (\<lambda>name ns. None),
      env_Jobs_Create_fault = (\<lambda>job. None),
      env_recIndexer_GetByKey = (\<lambda>key.
         if key = ''default/demo'' then Inr (Some (exRecovery [] ''missing-restic''))
         else Inr None)\<rparr>"

definition exQueue :: "string list \<Rightarrow> nat \<Rightarrow> WorkQueue" where
  "exQueue items n =
     \<lparr>wq_queue = items, wq_dirty = items, wq_processing = [], wq_shuttingDown = False,
      wq_failures = (\<lambda>key. n), wq_waiting = []\<rparr>"

definition exWorld :: "Job list \<Rightarrow> WorkQueue \<Rightarrow> World" where
  "exWorld jobs q =
     \<lparr>w_jobs = jobs, w_recoveryPhase = Map.empty, w_events = [], w_calls = [],
      w_handledErrors = [], w_recQueue = q\<rparr>"

definition exJob :: Job where
  "exJob = derivedJob exEnv (exRecovery [] ''statefulset-restic'') (exRestic (Some exLocalSpec))"

text \<open>
  Quantities as \<open>ParseQuantity\<close> stores them: a binary suffix is folded into the value at
  scale 0, a decimal suffix becomes the scale, and the string is cached only when it is
  the canonical form.
\<close>

definition exQuantity_1Gi :: Quantity where
  "exQuantity_1Gi = \<lparr>q_i_value = 1073741824, q_i_scale = 0, q_d = None, q_s = ''1Gi'',
                     q_Format = BinarySI\<rparr>"

definition exQuantity_1024Mi :: Quantity where
  "exQuantity_1024Mi = \<lparr>q_i_value = 1073741824, q_i_scale = 0, q_d = None, q_s = [],
                        q_Format = BinarySI\<rparr>"

definition exQuantity_2Gi :: Quantity where
  "exQuantity_2Gi = \<lparr>q_i_value = 2147483648, q_i_scale = 0, q_d = None, q_s = ''2Gi'',
                     q_Format = BinarySI\<rparr>"

definition exQuantity_1G :: Quantity where
  "exQuantity_1G = \<lparr>q_i_value = 1, q_i_scale = 9, q_d = None, q_s = ''1G'',
                    q_Format = DecimalSI\<rparr>"

definition exQuantity_1000M :: Quantity where
  "exQuantity_1000M = \<lparr>q_i_value = 1000, q_i_scale = 6, q_d = None, q_s = [],
                       q_Format = DecimalSI\<rparr>"

definition exRecoverySized :: "Quantity \<Rightarrow> Recovery" where
  "exRecoverySized q =
     \<lparr>rec_Meta = exMeta ''demo'',
      rec_Spec = \<lparr>rcs_Restic = ''statefulset-restic'', rcs_NodeName = ''node-1'',
                  rcs_Volumes = Some [\<lparr>vol_Name = ''source-data'',
                    vol_VolumeSource = \<lparr>vs_HostPath = None,
                      vs_EmptyDir = Some \<lparr>ed_Medium = [], ed_SizeLimit = Some q\<rparr>,
                      vs_PersistentVolumeClaim = None\<rparr>\<rparr>]\<rparr>,
      rec_Status = \<lparr>rst_Phase = []\<rparr>\<rparr>"

section \<open>Properties of the mutator\<close>































text \<open>
  The caller's own slice after a removal: its length is unchanged and its last volume
  appears twice. A caller that merges that slice again, instead of the one returned,
  gets the doubled volume back.
\<close>

lemma MergeLocalVolume_argument_after_removal:
  "MergeLocalVolume [exVolume ''a'', exVolume ''stash-local'', exVolume ''b'']
       (Some (exRestic (Some exLocalSpec))) (exRestic None)
     = ([exVolume ''a'', exVolume ''b''], [exVolume ''a'', exVolume ''b'', exVolume ''b'']) \<and>
   merged [exVolume ''a'', exVolume ''b'', exVolume ''b'']
       (Some (exRestic (Some exLocalSpec))) (exRestic None)
     = [exVolume ''a'', exVolume ''b'', exVolume ''b'']"
  by (simp add: merged_def MergeLocalVolume_def exVolume_def exRestic_def exLocalSpec_def
        LocalVolumeName_def)

subsection \<open>The sidecar container\<close>

lemma sidecar_mount_loop:
  "foldl (\<lambda>sc srcVol.
            sc\<lparr>c_VolumeMounts := c_VolumeMounts sc @
              [\<lparr>vm_Name = vm_Name srcVol, vm_ReadOnly = True,
                vm_MountPath = vm_MountPath srcVol,
                vm_SubPath = vm_SubPath srcVol\<rparr>]\<rparr>) sc ms
   = sc\<lparr>c_VolumeMounts := c_VolumeMounts sc @ map (\<lambda>m. m\<lparr>vm_ReadOnly := True\<rparr>) ms\<rparr>"
  by (induction ms arbitrary: sc) auto

lemma CreateSidecarContainer_closed:
  "CreateSidecarContainer vt r tag w =
     \<lparr>c_Name = StashContainer,
      c_Image = ImageOperator @ '':'' @ effectiveTag vt r tag,
      c_ImagePullPolicy = (if effectiveTag vt r tag = ''canary'' then PullAlways else PullIfNotPresent),
      c_Args = [''schedule'',
                ''--restic-name='' @ om_Name (r_Meta r),
                ''--workload-kind='' @ ltr_Kind w,
                ''--workload-name='' @ ltr_Name w,
                if effectiveTag vt r tag = ''canary'' then ''--v=5'' else ''--v=3''],
      c_Env = [\<lparr>env_Name = ''NODE_NAME'', env_Value = [], env_FieldPath = Some ''spec.nodeName''\<rparr>,
               \<lparr>env_Name = ''POD_NAME'', env_Value = [], env_FieldPath = Some ''metadata.name''\<rparr>],
      c_Resources = rs_Resources (r_Spec r),
      c_VolumeMounts =
        [\<lparr>vm_Name = ScratchDirVolumeName, vm_ReadOnly = False, vm_MountPath = ''/tmp'', vm_SubPath = []\<rparr>,
         \<lparr>vm_Name = PodinfoVolumeName, vm_ReadOnly = False, vm_MountPath = ''/etc/stash'', vm_SubPath = []\<rparr>]
        @ map (\<lambda>m. m\<lparr>vm_ReadOnly := True\<rparr>) (elems (rs_VolumeMounts (r_Spec r)))
        @ localMount r\<rparr>"
  unfolding CreateSidecarContainer_def effectiveTag_def localMount_def Let_def sidecar_mount_loop
  by (cases "be_Local (rs_Backend (r_Spec r))") simp_all

text \<open>
  Claim C8. For every policy \<open>r\<close> and image tag, the container that
  \<open>CreateSidecarContainer\<close> returns is named \<open>stash\<close>; its image carries the tag in effect,
  which is the policy's version-tag annotation when there is one and the given tag
  otherwise; when that tag is \<open>canary\<close> the pull policy is \<open>PullAlways\<close> and the last
  argument is \<open>--v=5\<close>, otherwise they are \<open>PullIfNotPresent\<close> and \<open>--v=3\<close>; and its volume
  mounts are the scratch mount, the pod-metadata mount, every mount of the policy with
  \<open>ReadOnly\<close> set, and, exactly when the backend is local, a mount named \<open>stash-local\<close> at
  the backend's path.
\<close>

theorem CreateSidecarContainer_shape:
  "c_Name (CreateSidecarContainer vt r tag w) = ''stash'' \<and>
   effectiveTag vt r tag =
     (case om_Annotations (r_Meta r) vt of Some v \<Rightarrow> v | None \<Rightarrow> tag) \<and>
   c_Image (CreateSidecarContainer vt r tag w) = ''appscode/stash:'' @ effectiveTag vt r tag \<and>
   c_ImagePullPolicy (CreateSidecarContainer vt r tag w) =
     (if effectiveTag vt r tag = ''canary'' then PullAlways else PullIfNotPresent) \<and>
   c_Args (CreateSidecarContainer vt r tag w) =
     [''schedule'', ''--restic-name='' @ om_Name (r_Meta r),
      ''--workload-kind='' @ ltr_Kind w, ''--workload-name='' @ ltr_Name w,
      if effectiveTag vt r tag = ''canary'' then ''--v=5'' else ''--v=3''] \<and>
   c_VolumeMounts (CreateSidecarContainer vt r tag w) =
     [\<lparr>vm_Name = ''stash-scratchdir'', vm_ReadOnly = False, vm_MountPath = ''/tmp'',
       vm_SubPath = []\<rparr>,
      \<lparr>vm_Name = ''stash-podinfo'', vm_ReadOnly = False, vm_MountPath = ''/etc/stash'',
       vm_SubPath = []\<rparr>]
     @ map (\<lambda>m. m\<lparr>vm_ReadOnly := True\<rparr>) (elems (rs_VolumeMounts (r_Spec r)))
     @ (case be_Local (rs_Backend (r_Spec r)) of
          Some local \<Rightarrow> [\<lparr>vm_Name = ''stash-local'', vm_ReadOnly = False,
                           vm_MountPath = ls_Path local, vm_SubPath = []\<rparr>]
        | None \<Rightarrow> [])"
  unfolding CreateSidecarContainer_closed
  by (simp add: effectiveTag_def localMount_def StashContainer_def ImageOperator_def
        ScratchDirVolumeName_def PodinfoVolumeName_def LocalVolumeName_def
      split: option.splits)

theorem CreateSidecarContainer_shape_witness:
  "c_ImagePullPolicy (CreateSidecarContainer ''tag-key''
      ((exRestic (Some exLocalSpec))\<lparr>r_Meta := (exMeta ''statefulset-restic'')\<lparr>om_Annotations :=
         [''tag-key'' \<mapsto> ''canary'']\<rparr>\<rparr>) ''0.7.0''
      \<lparr>ltr_Kind = ''StatefulSet'', ltr_Name = ''workload'', ltr_APIVersion = []\<rparr>) = PullAlways \<and>
   c_VolumeMounts (CreateSidecarContainer ''tag-key'' (exRestic (Some exLocalSpec)) ''0.7.0''
      \<lparr>ltr_Kind = ''StatefulSet'', ltr_Name = ''workload'', ltr_APIVersion = []\<rparr>) =
     [\<lparr>vm_Name = ''stash-scratchdir'', vm_ReadOnly = False, vm_MountPath = ''/tmp'',
       vm_SubPath = []\<rparr>,
      \<lparr>vm_Name = ''stash-podinfo'', vm_ReadOnly = False, vm_MountPath = ''/etc/stash'',
       vm_SubPath = []\<rparr>,
      \<lparr>vm_Name = ''source-data'', vm_ReadOnly = True, vm_MountPath = ''/source/data'',
       vm_SubPath = []\<rparr>,
      \<lparr>vm_Name = ''stash-local'', vm_ReadOnly = False, vm_MountPath = ''/repo'',
       vm_SubPath = []\<rparr>]"
  using CreateSidecarContainer_shape [of "''tag-key''"
      "(exRestic (Some exLocalSpec))\<lparr>r_Meta := (exMeta ''statefulset-restic'')\<lparr>om_Annotations :=
         [''tag-key'' \<mapsto> ''canary'']\<rparr>\<rparr>" "''0.7.0''"
      "\<lparr>ltr_Kind = ''StatefulSet'', ltr_Name = ''workload'', ltr_APIVersion = []\<rparr>"]
    CreateSidecarContainer_shape [of "''tag-key''" "exRestic (Some exLocalSpec)" "''0.7.0''"
      "\<lparr>ltr_Kind = ''StatefulSet'', ltr_Name = ''workload'', ltr_APIVersion = []\<rparr>"]
  by (simp add: exRestic_def exLocalSpec_def exMeta_def elems_def)

section \<open>Properties of the recovery controller\<close>

lemma recorder_Event_proj:
  "w_events (recorder_Event ref ty reason msg w) =
     w_events w @ [\<lparr>e_Object = ref, e_Type = ty, e_Reason = reason, e_Message = msg\<rparr>]"
  "w_calls (recorder_Event ref ty reason msg w) = w_calls w"
  "w_jobs (recorder_Event ref ty reason msg w) = w_jobs w"
  "w_recoveryPhase (recorder_Event ref ty reason msg w) = w_recoveryPhase w"
  "w_recQueue (recorder_Event ref ty reason msg w) = w_recQueue w"
  "w_handledErrors (recorder_Event ref ty reason msg w) = w_handledErrors w"
  by (simp_all add: recorder_Event_def)

lemma SetRecoveryStatusPhase_proj:
  "w_events (SetRecoveryStatusPhase r p w) = w_events w"
  "w_calls (SetRecoveryStatusPhase r p w) =
     w_calls w @ [CallSetRecoveryStatusPhase (om_Namespace (rec_Meta r)) (om_Name (rec_Meta r)) p]"
  "w_jobs (SetRecoveryStatusPhase r p w) = w_jobs w"
  "w_recoveryPhase (SetRecoveryStatusPhase r p w) = (w_recoveryPhase w)(recKey r \<mapsto> p)"
  "w_recQueue (SetRecoveryStatusPhase r p w) = w_recQueue w"
  "w_handledErrors (SetRecoveryStatusPhase r p w) = w_handledErrors w"
  by (simp_all add: SetRecoveryStatusPhase_def recKey_def)

lemma Restics_Get_proj:
  "fst (Restics_Get env ns name w) = env_Restics_Get env ns name"
  "w_events (snd (Restics_Get env ns name w)) = w_events w"
  "w_calls (snd (Restics_Get env ns name w)) =
     w_calls w @ [CallResticsGet ns name
        (case env_Restics_Get env ns name of Inl err \<Rightarrow> Some err | Inr _ \<Rightarrow> None)]"
  "w_jobs (snd (Restics_Get env ns name w)) = w_jobs w"
  "w_recoveryPhase (snd (Restics_Get env ns name w)) = w_recoveryPhase w"
  "w_recQueue (snd (Restics_Get env ns name w)) = w_recQueue w"
  "w_handledErrors (snd (Restics_Get env ns name w)) = w_handledErrors w"
  by (simp_all add: Restics_Get_def Let_def)

lemma ensureRecoveryRBAC_proj:
  "fst (ensureRecoveryRBAC env name ns w) = env_ensureRecoveryRBAC env name ns"
  "w_events (snd (ensureRecoveryRBAC env name ns w)) = w_events w"
  "w_calls (snd (ensureRecoveryRBAC env name ns w)) =
     w_calls w @ [CallEnsureRecoveryRBAC name ns (env_ensureRecoveryRBAC env name ns)]"
  "w_jobs (snd (ensureRecoveryRBAC env name ns w)) = w_jobs w"
  "w_recoveryPhase (snd (ensureRecoveryRBAC env name ns w)) = w_recoveryPhase w"
  "w_recQueue (snd (ensureRecoveryRBAC env name ns w)) = w_recQueue w"
  "w_handledErrors (snd (ensureRecoveryRBAC env name ns w)) = w_handledErrors w"
  by (simp_all add: ensureRecoveryRBAC_def Let_def)

lemma Jobs_Create_frame:
  "w_events (snd (Jobs_Create env ns job w)) = w_events w"
  "w_recoveryPhase (snd (Jobs_Create env ns job w)) = w_recoveryPhase w"
  "w_recQueue (snd (Jobs_Create env ns job w)) = w_recQueue w"
  "w_handledErrors (snd (Jobs_Create env ns job w)) = w_handledErrors w"
  by (simp_all add: Jobs_Create_def Let_def split: option.splits)

lemma Jobs_Create_Inl:
  assumes "fst (Jobs_Create env ns job w) = Inl err"
  shows "w_calls (snd (Jobs_Create env ns job w)) = w_calls w @ [CallJobsCreate job (Some err)]"
    and "w_jobs (snd (Jobs_Create env ns job w)) = w_jobs w"
  using assms by (simp_all add: Jobs_Create_def Let_def split: option.splits if_splits)

lemma Jobs_Create_Inr:
  assumes "fst (Jobs_Create env ns job w) = Inr j"
  shows "j = job"
    and "w_calls (snd (Jobs_Create env ns job w)) = w_calls w @ [CallJobsCreate job None]"
    and "w_jobs (snd (Jobs_Create env ns job w)) = w_jobs w @ [job]"
    and "(ns, j_Name job) \<notin> set (map jobKey (w_jobs w))"
  using assms by (simp_all add: Jobs_Create_def Let_def split: option.splits if_splits)

lemma CreateRecoveryJob_name:
  "j_Name (CreateRecoveryJob api rec restic tag) = ''stash-'' @ om_Name (rec_Meta rec)"
  "j_Namespace (CreateRecoveryJob api rec restic tag) = om_Namespace (rec_Meta rec)"
  by (simp_all add: CreateRecoveryJob_def Let_def split: option.splits)

lemma derivedJob_name:
  "j_Name (derivedJob env rec restic) = ''stash-'' @ om_Name (rec_Meta rec)"
  "j_Namespace (derivedJob env rec restic) = om_Namespace (rec_Meta rec)"
  by (simp_all add: derivedJob_def Let_def CreateRecoveryJob_name)

lemma runRecoveryJob_unfold:
  "runRecoveryJob env rec w =
     (if rst_Phase (rec_Status rec) = RecoverySucceeded \<or>
         rst_Phase (rec_Status rec) = RecoveryRunning
      then (None, w)
      else
        (let g = Restics_Get env (om_Namespace (rec_Meta rec)) (rcs_Restic (rec_Spec rec)) w
         in case fst g of
              Inl err \<Rightarrow>
                (Some err,
                 recorder_Event (Recovery_ObjectReference (env_api env) rec) EventTypeWarning
                   EventReasonFailedToRecover (Error err)
                   (SetRecoveryStatusPhase rec RecoveryFailed (snd g)))
            | Inr restic \<Rightarrow>
                (case env_Restic_IsValid env restic of
                   Some err \<Rightarrow>
                     (Some err,
                      recorder_Event (Recovery_ObjectReference (env_api env) rec) EventTypeWarning
                        EventReasonFailedToRecover (Error err)
                        (SetRecoveryStatusPhase rec RecoveryFailed (snd g)))
                 | None \<Rightarrow>
                     (let b = (if opt_EnableRBAC (env_options env)
                               then ensureRecoveryRBAC env (''stash-'' @ om_Name (rec_Meta rec))
                                      (om_Namespace (rec_Meta rec)) (snd g)
                               else (None, snd g))
                      in case fst b of
                           Some err \<Rightarrow>
                             (Some (GoError (''error ensuring rbac for recovery job ''
                                      @ (''stash-'' @ om_Name (rec_Meta rec))
                                      @ '', reason: '' @ Error err @ [CHR 0x0A])), snd b)
                         | None \<Rightarrow>
                             (let c = Jobs_Create env (om_Namespace (rec_Meta rec))
                                        (derivedJob env rec restic) (snd b)
                              in case fst c of
                                   Inl err \<Rightarrow>
                                     (if IsAlreadyExists err then (None, snd c)
                                      else
                                        (Some err,
                                         recorder_Event (Recovery_ObjectReference (env_api env) rec)
                                           EventTypeWarning EventReasonFailedToRecover (Error err)
                                           (SetRecoveryStatusPhase rec RecoveryFailed (snd c))))
                                 | Inr job \<Rightarrow>
                                     (None,
                                      SetRecoveryStatusPhase rec RecoveryRunning
                                        (recorder_Event (Recovery_ObjectReference (env_api env) rec)
                                           EventTypeNormal EventReasonJobCreated
                                           (''Recovery job created: '' @ j_Name job) (snd c))))))))"
  unfolding runRecoveryJob_def derivedJob_def Let_def case_prod_beta CreateRecoveryJob_name
  by (simp cong: if_cong sum.case_cong option.case_cong)

lemma runRecoveryJob_paths:
  fixes env rec w
  defines "ns \<equiv> om_Namespace (rec_Meta rec)"
    and "rn \<equiv> rcs_Restic (rec_Spec rec)"
    and "R \<equiv> runRecoveryJob env rec w"
  obtains
    (short) "rst_Phase (rec_Status rec) = RecoverySucceeded \<or>
             rst_Phase (rec_Status rec) = RecoveryRunning"
      "R = (None, w)"
  | (unresolved) err where
      "rst_Phase (rec_Status rec) \<noteq> RecoverySucceeded"
      "rst_Phase (rec_Status rec) \<noteq> RecoveryRunning"
      "env_Restics_Get env ns rn = Inl err \<or>
       (\<exists>restic. env_Restics_Get env ns rn = Inr restic \<and> env_Restic_IsValid env restic = Some err)"
      "fst R = Some err"
      "w_calls (snd R) = w_calls w @
         [CallResticsGet ns rn (case env_Restics_Get env ns rn of Inl e \<Rightarrow> Some e | Inr _ \<Rightarrow> None),
          CallSetRecoveryStatusPhase ns (om_Name (rec_Meta rec)) RecoveryFailed]"
      "w_events (snd R) = w_events w @ [warningEvent env rec err]"
      "w_recoveryPhase (snd R) = (w_recoveryPhase w)(recKey rec \<mapsto> RecoveryFailed)"
      "w_jobs (snd R) = w_jobs w"
  | (rbacFailed) restic err where
      "rst_Phase (rec_Status rec) \<noteq> RecoverySucceeded"
      "rst_Phase (rec_Status rec) \<noteq> RecoveryRunning"
      "env_Restics_Get env ns rn = Inr restic"
      "env_Restic_IsValid env restic = None"
      "opt_EnableRBAC (env_options env)"
      "fst R = Some (GoError (''error ensuring rbac for recovery job ''
                 @ (''stash-'' @ om_Name (rec_Meta rec))
                 @ '', reason: '' @ Error err @ [CHR 0x0A]))"
      "w_calls (snd R) = w_calls w @ [CallResticsGet ns rn None] @ rbacCalls env rec (Some err)"
      "w_events (snd R) = w_events w"
      "w_recoveryPhase (snd R) = w_recoveryPhase w"
      "w_jobs (snd R) = w_jobs w"
  | (exists) restic err where
      "rst_Phase (rec_Status rec) \<noteq> RecoverySucceeded"
      "rst_Phase (rec_Status rec) \<noteq> RecoveryRunning"
      "env_Restics_Get env ns rn = Inr restic"
      "env_Restic_IsValid env restic = None"
      "IsAlreadyExists err"
      "fst R = None"
      "w_calls (snd R) = w_calls w @ [CallResticsGet ns rn None] @ rbacCalls env rec None @
         [CallJobsCreate (derivedJob env rec restic) (Some err)]"
      "w_events (snd R) = w_events w"
      "w_recoveryPhase (snd R) = w_recoveryPhase w"
      "w_jobs (snd R) = w_jobs w"
  | (createFailed) restic err where
      "rst_Phase (rec_Status rec) \<noteq> RecoverySucceeded"
      "rst_Phase (rec_Status rec) \<noteq> RecoveryRunning"
      "env_Restics_Get env ns rn = Inr restic"
      "env_Restic_IsValid env restic = None"
      "\<not> IsAlreadyExists err"
      "fst R = Some err"
      "w_calls (snd R) = w_calls w @ [CallResticsGet ns rn None] @ rbacCalls env rec None @
         [CallJobsCreate (derivedJob env rec restic) (Some err),
          CallSetRecoveryStatusPhase ns (om_Name (rec_Meta rec)) RecoveryFailed]"
      "w_events (snd R) = w_events w @ [warningEvent env rec err]"
      "w_recoveryPhase (snd R) = (w_recoveryPhase w)(recKey rec \<mapsto> RecoveryFailed)"
      "w_jobs (snd R) = w_jobs w"
  | (created) restic where
      "rst_Phase (rec_Status rec) \<noteq> RecoverySucceeded"
      "rst_Phase (rec_Status rec) \<noteq> RecoveryRunning"
      "env_Restics_Get env ns rn = Inr restic"
      "env_Restic_IsValid env restic = None"
      "fst R = None"
      "w_calls (snd R) = w_calls w @ [CallResticsGet ns rn None] @ rbacCalls env rec None @
         [CallJobsCreate (derivedJob env rec restic) None,
          CallSetRecoveryStatusPhase ns (om_Name (rec_Meta rec)) RecoveryRunning]"
      "w_events (snd R) = w_events w @ [createdEvent env rec (derivedJob env rec restic)]"
      "w_recoveryPhase (snd R) = (w_recoveryPhase w)(recKey rec \<mapsto> RecoveryRunning)"
      "w_jobs (snd R) = w_jobs w @ [derivedJob env rec restic]"
      "jobKey (derivedJob env rec restic) \<notin> set (map jobKey (w_jobs w))"
proof (cases "rst_Phase (rec_Status rec) = RecoverySucceeded \<or>
              rst_Phase (rec_Status rec) = RecoveryRunning")
  case True
  then have "R = (None, w)" unfolding R_def by (simp add: runRecoveryJob_def)
  with True show ?thesis by (rule short)
next
  case False
  then have ph: "rst_Phase (rec_Status rec) \<noteq> RecoverySucceeded"
    "rst_Phase (rec_Status rec) \<noteq> RecoveryRunning" by simp_all
  define g where "g = Restics_Get env ns rn w"
  have gp: "fst g = env_Restics_Get env ns rn" "w_events (snd g) = w_events w"
    "w_calls (snd g) = w_calls w @ [CallResticsGet ns rn
        (case env_Restics_Get env ns rn of Inl e \<Rightarrow> Some e | Inr _ \<Rightarrow> None)]"
    "w_jobs (snd g) = w_jobs w" "w_recoveryPhase (snd g) = w_recoveryPhase w"
    unfolding g_def by (simp_all add: Restics_Get_proj)
  note unf = runRecoveryJob_unfold [of env rec w, folded ns_def rn_def, folded g_def R_def]
  have fail: "w_calls (snd R) = w_calls w @
         [CallResticsGet ns rn (case env_Restics_Get env ns rn of Inl e \<Rightarrow> Some e | Inr _ \<Rightarrow> None),
          CallSetRecoveryStatusPhase ns (om_Name (rec_Meta rec)) RecoveryFailed] \<and>
      w_events (snd R) = w_events w @ [warningEvent env rec err] \<and>
      w_recoveryPhase (snd R) = (w_recoveryPhase w)(recKey rec \<mapsto> RecoveryFailed) \<and>
      w_jobs (snd R) = w_jobs w \<and> fst R = Some err"
    if "R = (Some err,
                 recorder_Event (Recovery_ObjectReference (env_api env) rec) EventTypeWarning
                   EventReasonFailedToRecover (Error err)
                   (SetRecoveryStatusPhase rec RecoveryFailed (snd g)))" for err
    unfolding that
    by (simp add: recorder_Event_proj SetRecoveryStatusPhase_proj gp warningEvent_def ns_def)
  show ?thesis
  proof (cases "env_Restics_Get env ns rn")
    case (Inl err)
    have "R = (Some err,
                 recorder_Event (Recovery_ObjectReference (env_api env) rec) EventTypeWarning
                   EventReasonFailedToRecover (Error err)
                   (SetRecoveryStatusPhase rec RecoveryFailed (snd g)))"
      unfolding unf using False Inl gp(1) by (simp add: Let_def)
    from fail [OF this] ph Inl show ?thesis by (intro unresolved [of err]) simp_all
  next
    case (Inr restic)
    show ?thesis
    proof (cases "env_Restic_IsValid env restic")
      case (Some err)
      have "R = (Some err,
                 recorder_Event (Recovery_ObjectReference (env_api env) rec) EventTypeWarning
                   EventReasonFailedToRecover (Error err)
                   (SetRecoveryStatusPhase rec RecoveryFailed (snd g)))"
        unfolding unf using False Inr Some gp(1) by (simp add: Let_def)
      from fail [OF this] ph Inr Some show ?thesis by (intro unresolved [of err]) simp_all
    next
      case None
      define b where "b = (if opt_EnableRBAC (env_options env)
                               then ensureRecoveryRBAC env (''stash-'' @ om_Name (rec_Meta rec))
                                      ns (snd g)
                               else (None, snd g))"
      have bp: "w_events (snd b) = w_events w"
        "w_calls (snd b) = w_calls w @ [CallResticsGet ns rn None] @ rbacCalls env rec (fst b)"
        "w_jobs (snd b) = w_jobs w" "w_recoveryPhase (snd b) = w_recoveryPhase w"
        unfolding b_def using Inr
        by (simp_all add: ensureRecoveryRBAC_proj gp rbacCalls_def ns_def)
      define c where "c = Jobs_Create env ns (derivedJob env rec restic) (snd b)"
      have cframe: "w_events (snd c) = w_events w" "w_recoveryPhase (snd c) = w_recoveryPhase w"
        unfolding c_def by (simp_all add: Jobs_Create_frame bp)
      have step: "R = (case fst b of
                           Some err \<Rightarrow>
                             (Some (GoError (''error ensuring rbac for recovery job ''
                                      @ (''stash-'' @ om_Name (rec_Meta rec))
                                      @ '', reason: '' @ Error err @ [CHR 0x0A])), snd b)
                         | None \<Rightarrow>
                             (case fst c of
                                   Inl err \<Rightarrow>
                                     (if IsAlreadyExists err then (None, snd c)
                                      else
                                        (Some err,
                                         recorder_Event (Recovery_ObjectReference (env_api env) rec)
                                           EventTypeWarning EventReasonFailedToRecover (Error err)
                                           (SetRecoveryStatusPhase rec RecoveryFailed (snd c))))
                                 | Inr job \<Rightarrow>
                                     (None,
                                      SetRecoveryStatusPhase rec RecoveryRunning
                                        (recorder_Event (Recovery_ObjectReference (env_api env) rec)
                                           EventTypeNormal EventReasonJobCreated
                                           (''Recovery job created: '' @ j_Name job) (snd c)))))"
        unfolding unf b_def c_def using False Inr None gp(1)
        by (simp add: Let_def ns_def cong: option.case_cong sum.case_cong if_cong)
      show ?thesis
      proof (cases "fst b")
        case (Some err)
        then have en: "opt_EnableRBAC (env_options env)"
          unfolding b_def by (simp split: if_splits)
        have "R = (Some (GoError (''error ensuring rbac for recovery job ''
                                      @ (''stash-'' @ om_Name (rec_Meta rec))
                                      @ '', reason: '' @ Error err @ [CHR 0x0A])), snd b)"
          unfolding step Some by simp
        then show ?thesis using ph en bp Some \<open>env_Restics_Get env ns rn = Inr restic\<close> None
          by (intro rbacFailed [of restic err]) simp_all
      next
        case bNone: None
        show ?thesis
        proof (cases "fst c")
          case (Inl err)
          from Jobs_Create_Inl [OF Inl [unfolded c_def]]
          have cp: "w_calls (snd c) = w_calls (snd b) @ [CallJobsCreate (derivedJob env rec restic) (Some err)]"
            "w_jobs (snd c) = w_jobs w"
            unfolding c_def by (simp_all add: bp)
          show ?thesis
          proof (cases "IsAlreadyExists err")
            case True
            have "R = (None, snd c)" unfolding step bNone Inl using True by simp
            then show ?thesis using ph Inr None True cp cframe bp bNone
              by (intro exists [of restic err]) simp_all
          next
            case notEx: False
            have "R = (Some err,
                       recorder_Event (Recovery_ObjectReference (env_api env) rec)
                         EventTypeWarning EventReasonFailedToRecover (Error err)
                         (SetRecoveryStatusPhase rec RecoveryFailed (snd c)))"
              unfolding step bNone Inl using notEx by simp
            then show ?thesis using ph Inr None notEx cp cframe bp bNone
              by (intro createFailed [of restic err])
                 (simp_all add: recorder_Event_proj SetRecoveryStatusPhase_proj warningEvent_def ns_def)
          qed
        next
          case (Inr job)
          from Jobs_Create_Inr [OF Inr [unfolded c_def]]
          have cp: "job = derivedJob env rec restic"
            "w_calls (snd c) = w_calls (snd b) @ [CallJobsCreate (derivedJob env rec restic) None]"
            "w_jobs (snd c) = w_jobs w @ [derivedJob env rec restic]"
            "jobKey (derivedJob env rec restic) \<notin> set (map jobKey (w_jobs w))"
            unfolding c_def by (simp_all add: bp jobKey_def derivedJob_name ns_def)
          have "R = (None,
                     SetRecoveryStatusPhase rec RecoveryRunning
                       (recorder_Event (Recovery_ObjectReference (env_api env) rec)
                          EventTypeNormal EventReasonJobCreated
                          (''Recovery job created: '' @ j_Name job) (snd c)))"
            unfolding step bNone Inr by simp
          then show ?thesis using ph \<open>env_Restics_Get env ns rn = Inr restic\<close> None cp cframe bp bNone
            by (intro created [of restic])
               (simp_all add: recorder_Event_proj SetRecoveryStatusPhase_proj createdEvent_def ns_def)
        qed
      qed
    qed
  qed
qed

lemma newCalls_append: "w_calls w' = w_calls w @ cs \<Longrightarrow> newCalls w w' = cs"
  by (simp add: newCalls_def)

lemma newEvents_append: "w_events w' = w_events w @ es \<Longrightarrow> newEvents w w' = es"
  by (simp add: newEvents_def)

lemma newCalls_same: "newCalls w w = []"
  by (simp add: newCalls_def)

lemma newEvents_same: "w_events w' = w_events w \<Longrightarrow> newEvents w w' = []"
  by (simp add: newEvents_def)

lemma rbacCalls_no_create: "CallJobsCreate job r \<notin> set (rbacCalls env rec res)"
  by (simp add: rbacCalls_def)

lemma rbacCalls_no_phase: "CallSetRecoveryStatusPhase ns n p \<notin> set (rbacCalls env rec res)"
  by (simp add: rbacCalls_def)

text \<open>
  Claim C2. For every Recovery whose phase is \<open>Succeeded\<close> or \<open>Running\<close>,
  \<open>runRecoveryJob\<close> returns nil and leaves the state as it found it: no Restic lookup, no
  Job creation, no phase write, no event.
\<close>

theorem runRecoveryJob_short_circuit:
  "rst_Phase (rec_Status rec) = RecoverySucceeded \<or> rst_Phase (rec_Status rec) = RecoveryRunning
   \<Longrightarrow> runRecoveryJob env rec w = (None, w)"
  by (simp add: runRecoveryJob_def)

lemma runRecoveryJob_frame:
  "w_recQueue (snd (runRecoveryJob env rec w)) = w_recQueue w"
  "w_handledErrors (snd (runRecoveryJob env rec w)) = w_handledErrors w"
  by (simp_all add: runRecoveryJob_unfold Let_def recorder_Event_proj SetRecoveryStatusPhase_proj
        Restics_Get_proj ensureRecoveryRBAC_proj Jobs_Create_frame
      split: sum.splits option.splits)

lemma runRecoveryJob_jobs_distinct:
  assumes "distinct (map jobKey (w_jobs w))"
  shows "distinct (map jobKey (w_jobs (snd (runRecoveryJob env rec w))))"
  by (cases rule: runRecoveryJob_paths [of rec env w]) (use assms in simp_all)

lemma reconcileAll_jobs_distinct:
  "distinct (map jobKey (w_jobs w)) \<Longrightarrow> distinct (map jobKey (w_jobs (reconcileAll runs w)))"
proof (induction runs arbitrary: w)
  case Nil
  then show ?case by simp
next
  case (Cons a runs)
  obtain env rec where a: "a = (env, rec)" by (cases a)
  show ?case unfolding a reconcileAll.simps
    by (rule Cons.IH) (rule runRecoveryJob_jobs_distinct [OF Cons.prems])
qed

lemma derivedJob_key:
  "recKey r = recKey r' \<Longrightarrow>
   jobKey (derivedJob env r restic) = jobKey (derivedJob env' r' restic')"
  by (simp add: jobKey_def derivedJob_name recKey_def)

lemma runRecoveryJob_jobs_step:
  "w_jobs (snd (runRecoveryJob env rec w)) = w_jobs w \<or>
   (\<exists>restic. w_jobs (snd (runRecoveryJob env rec w)) = w_jobs w @ [derivedJob env rec restic] \<and>
       jobKey (derivedJob env rec restic) \<notin> set (map jobKey (w_jobs w)))"
  by (cases rule: runRecoveryJob_paths [of rec env w]) auto

lemma reconcileAll_same_key:
  assumes "\<forall>x \<in> set runs. recKey (snd x) = recKey rec"
  shows "length (w_jobs (reconcileAll runs w)) \<le> Suc (length (w_jobs w)) \<and>
         (jobKey (derivedJob env rec restic) \<in> set (map jobKey (w_jobs w)) \<longrightarrow>
            w_jobs (reconcileAll runs w) = w_jobs w)"
  using assms
proof (induction runs arbitrary: w)
  case Nil
  then show ?case by simp
next
  case (Cons a runs)
  obtain env' r where a: "a = (env', r)" by (cases a)
  from Cons.prems a have k: "recKey r = recKey rec"
    and rest: "\<forall>x \<in> set runs. recKey (snd x) = recKey rec" by simp_all
  define w1 where "w1 = snd (runRecoveryJob env' r w)"
  note IH = Cons.IH [OF rest, of w1]
  have unf: "reconcileAll (a # runs) w = reconcileAll runs w1"
    by (simp add: a w1_def)
  from runRecoveryJob_jobs_step [of env' r w]
  consider (same) "w_jobs w1 = w_jobs w"
    | (added) restic' where "w_jobs w1 = w_jobs w @ [derivedJob env' r restic']"
        "jobKey (derivedJob env' r restic') \<notin> set (map jobKey (w_jobs w))"
    unfolding w1_def by blast
  then show ?case
  proof cases
    case same
    with IH show ?thesis unfolding unf by simp
  next
    case added
    have e: "jobKey (derivedJob env' r restic') = jobKey (derivedJob env rec restic)"
      by (rule derivedJob_key [OF k])
    from added(1) e have "jobKey (derivedJob env rec restic) \<in> set (map jobKey (w_jobs w1))"
      by simp
    with IH have "w_jobs (reconcileAll runs w1) = w_jobs w1" by blast
    with added e show ?thesis unfolding unf by simp
  qed
qed

text \<open>
  Claim C1. For every run of \<open>runRecoveryJob\<close> in which the creation of the derived Job is
  answered with an "already exists" error, the run returns nil, writes no \<open>Failed\<close> phase,
  records no warning event and leaves the Jobs as they were. However often the Recovery
  is processed after that, in whatever version and phase the cache holds it, the Jobs of
  the API server grow by at most one; and they do not grow at all when the name of the
  refused Job is taken there.
\<close>

theorem runRecoveryJob_already_exists:
  assumes "CallJobsCreate job (Some err) \<in> set (newCalls w (snd (runRecoveryJob env rec w)))"
    and "IsAlreadyExists err"
  shows "fst (runRecoveryJob env rec w) = None \<and>
         (\<forall>ns n. CallSetRecoveryStatusPhase ns n RecoveryFailed
             \<notin> set (newCalls w (snd (runRecoveryJob env rec w)))) \<and>
         (\<forall>e \<in> set (newEvents w (snd (runRecoveryJob env rec w))). e_Type e \<noteq> EventTypeWarning) \<and>
         w_jobs (snd (runRecoveryJob env rec w)) = w_jobs w \<and>
         (\<forall>runs. (\<forall>x \<in> set runs. recKey (snd x) = recKey rec) \<longrightarrow>
            length (w_jobs (reconcileAll runs (snd (runRecoveryJob env rec w))))
              \<le> Suc (length (w_jobs w)) \<and>
            (jobKey job \<in> set (map jobKey (w_jobs w)) \<longrightarrow>
               w_jobs (reconcileAll runs (snd (runRecoveryJob env rec w))) = w_jobs w))"
proof (cases rule: runRecoveryJob_paths [of rec env w])
  case short
  with assms(1) show ?thesis by (simp add: newCalls_same)
next
  case (unresolved e)
  with assms(1) show ?thesis by (simp add: newCalls_append [OF unresolved(5)])
next
  case (rbacFailed restic e)
  with assms(1) show ?thesis
    by (simp add: newCalls_append [OF rbacFailed(7)] rbacCalls_no_create)
next
  case (exists restic e)
  have j: "w_jobs (snd (runRecoveryJob env rec w)) = w_jobs w" by (rule exists(10))
  from assms(1) have job: "job = derivedJob env rec restic"
    by (simp add: newCalls_append [OF exists(7)] rbacCalls_no_create)
  have "length (w_jobs (reconcileAll runs (snd (runRecoveryJob env rec w))))
              \<le> Suc (length (w_jobs w)) \<and>
            (jobKey job \<in> set (map jobKey (w_jobs w)) \<longrightarrow>
               w_jobs (reconcileAll runs (snd (runRecoveryJob env rec w))) = w_jobs w)"
    if "\<forall>x \<in> set runs. recKey (snd x) = recKey rec" for runs
    using reconcileAll_same_key [OF that, of "snd (runRecoveryJob env rec w)" env restic]
    unfolding j job .
  with exists show ?thesis
    by (simp add: newCalls_append [OF exists(7)] newEvents_same rbacCalls_no_phase)
next
  case (createFailed restic e)
  with assms show ?thesis
    by (auto simp: newCalls_append [OF createFailed(7)] rbacCalls_no_create)
next
  case (created restic)
  with assms(1) show ?thesis
    by (simp add: newCalls_append [OF created(6)] rbacCalls_no_create)
qed

text \<open>
  Claim C10. For every run of \<open>runRecoveryJob\<close> in which the creation of the derived Job is
  answered with an "already exists" error, the run returns before the success path: it
  writes no \<open>Running\<close> phase and records no normal event; the events and the phase of
  every Recovery are what they were before the run.
\<close>

theorem already_exists_returns_before_success:
  assumes "CallJobsCreate job (Some err) \<in> set (newCalls w (snd (runRecoveryJob env rec w)))"
    and "IsAlreadyExists err"
  shows "(\<forall>ns n. CallSetRecoveryStatusPhase ns n RecoveryRunning
             \<notin> set (newCalls w (snd (runRecoveryJob env rec w)))) \<and>
         (\<forall>e \<in> set (newEvents w (snd (runRecoveryJob env rec w))). e_Type e \<noteq> EventTypeNormal) \<and>
         w_events (snd (runRecoveryJob env rec w)) = w_events w \<and>
         w_recoveryPhase (snd (runRecoveryJob env rec w)) = w_recoveryPhase w"
proof (cases rule: runRecoveryJob_paths [of rec env w])
  case short
  with assms(1) show ?thesis by (simp add: newCalls_same)
next
  case (unresolved e)
  with assms(1) show ?thesis by (simp add: newCalls_append [OF unresolved(5)])
next
  case (rbacFailed restic e)
  with assms(1) show ?thesis
    by (simp add: newCalls_append [OF rbacFailed(7)] rbacCalls_no_create)
next
  case (exists restic e)
  then show ?thesis
    by (simp add: newCalls_append [OF exists(7)] newEvents_same rbacCalls_no_phase)
next
  case (createFailed restic e)
  with assms show ?thesis
    by (auto simp: newCalls_append [OF createFailed(7)] rbacCalls_no_create)
next
  case (created restic)
  with assms(1) show ?thesis
    by (simp add: newCalls_append [OF created(6)] rbacCalls_no_create)
qed

text \<open>
  Claim C6. For every Recovery whose phase is neither \<open>Succeeded\<close> nor \<open>Running\<close> and whose
  Restic cannot be fetched, or is fetched and found invalid, \<open>runRecoveryJob\<close> returns that
  error, writes the phase \<open>Failed\<close> for the Recovery, and records exactly one event, a
  warning against the Recovery; no Job is created.
\<close>

theorem runRecoveryJob_policy_unresolved:
  assumes "rst_Phase (rec_Status rec) \<noteq> RecoverySucceeded"
    and "rst_Phase (rec_Status rec) \<noteq> RecoveryRunning"
    and "env_Restics_Get env (om_Namespace (rec_Meta rec)) (rcs_Restic (rec_Spec rec)) = Inl err \<or>
         (\<exists>restic. env_Restics_Get env (om_Namespace (rec_Meta rec)) (rcs_Restic (rec_Spec rec))
                      = Inr restic \<and> env_Restic_IsValid env restic = Some err)"
  shows "fst (runRecoveryJob env rec w) = Some err \<and>
         w_recoveryPhase (snd (runRecoveryJob env rec w)) (recKey rec) = Some RecoveryFailed \<and>
         CallSetRecoveryStatusPhase (om_Namespace (rec_Meta rec)) (om_Name (rec_Meta rec))
             RecoveryFailed \<in> set (newCalls w (snd (runRecoveryJob env rec w))) \<and>
         newEvents w (snd (runRecoveryJob env rec w)) = [warningEvent env rec err] \<and>
         e_Type (warningEvent env rec err) = EventTypeWarning \<and>
         e_Object (warningEvent env rec err) = Recovery_ObjectReference (env_api env) rec \<and>
         w_jobs (snd (runRecoveryJob env rec w)) = w_jobs w"
proof (cases rule: runRecoveryJob_paths [of rec env w])
  case short
  with assms show ?thesis by simp
next
  case (unresolved e)
  from unresolved(3) assms(3) have "e = err" by auto
  with unresolved show ?thesis
    by (simp add: newCalls_append [OF unresolved(5)] newEvents_append [OF unresolved(6)]
          warningEvent_def)
next
  case (rbacFailed restic e)
  with assms(3) show ?thesis by simp
next
  case (exists restic e)
  with assms(3) show ?thesis by simp
next
  case (createFailed restic e)
  with assms(3) show ?thesis by simp
next
  case (created restic)
  with assms(3) show ?thesis by simp
qed

lemma runRecoveryInjector_frame:
  "w_recQueue (snd (runRecoveryInjector env key w)) = w_recQueue w"
  "w_handledErrors (snd (runRecoveryInjector env key w)) = w_handledErrors w"
  by (simp_all add: runRecoveryInjector_def runRecoveryJob_frame split: sum.splits option.splits)

lemma wq_Get_not_dirty:
  "wq_Get q = Some (Some key, quit, q1) \<Longrightarrow> key \<notin> set (wq_dirty q1)"
  by (auto simp: wq_Get_def split: list.splits if_splits)

text \<open>
  Claim C3. For every key that \<open>Get\<close> hands out and whose reconcile returns an error,
  \<open>processNextRecovery\<close> returns true. When the key's requeue count is below
  \<open>MaxNumRequeues\<close> the key is added through the rate limiter (which counts one more
  failure for it) and nothing is reported. Otherwise the key is forgotten, it is neither
  queued again nor handed to the delayed add, and the error is reported to the handler
  exactly once.
\<close>

theorem processNextRecovery_bounded_retry:
  assumes "wq_Get (w_recQueue w) = Some (Some key, False, q1)"
    and "fst (runRecoveryInjector env key (w\<lparr>w_recQueue := q1\<rparr>)) = Some err"
  shows "\<exists>w'. processNextRecovery env w = Some (True, w') \<and>
     (if wq_NumRequeues q1 key < opt_MaxNumRequeues (env_options env)
      then w_recQueue w' = wq_Done key (wq_AddRateLimited key q1) \<and>
           wq_failures (w_recQueue w') key = Suc (wq_failures q1 key) \<and>
           wq_waiting (w_recQueue w') =
             (if wq_shuttingDown q1 then wq_waiting q1 else wq_waiting q1 @ [key]) \<and>
           w_handledErrors w' = w_handledErrors w
      else w_recQueue w' = wq_Done key (wq_Forget key q1) \<and>
           wq_failures (w_recQueue w') key = 0 \<and>
           wq_waiting (w_recQueue w') = wq_waiting q1 \<and>
           wq_queue (w_recQueue w') = wq_queue q1 \<and>
           w_handledErrors w' = w_handledErrors w @ [err])"
proof -
  define inj where "inj = runRecoveryInjector env key (w\<lparr>w_recQueue := q1\<rparr>)"
  obtain w1 where inj: "inj = (Some err, w1)"
    using assms(2) unfolding inj_def by (cases "runRecoveryInjector env key (w\<lparr>w_recQueue := q1\<rparr>)") simp
  have q: "w_recQueue w1 = q1" and h: "w_handledErrors w1 = w_handledErrors w"
    using runRecoveryInjector_frame [of env key "w\<lparr>w_recQueue := q1\<rparr>"] inj
    unfolding inj_def by simp_all
  have nd: "key \<notin> set (wq_dirty q1)" by (rule wq_Get_not_dirty [OF assms(1)])
  show ?thesis
  proof (cases "wq_NumRequeues q1 key < opt_MaxNumRequeues (env_options env)")
    case True
    have "processNextRecovery env w =
            Some (True, onQueue (wq_Done key) (onQueue (wq_AddRateLimited key) w1))"
      using assms(1) inj True q unfolding inj_def by (simp add: processNextRecovery_def)
    moreover have "w_recQueue (onQueue (wq_Done key) (onQueue (wq_AddRateLimited key) w1))
                     = wq_Done key (wq_AddRateLimited key q1)"
      by (simp add: onQueue_def q)
    moreover have "wq_failures (wq_Done key (wq_AddRateLimited key q1)) key = Suc (wq_failures q1 key)"
      by (simp add: wq_Done_def wq_AddRateLimited_def Let_def)
    moreover have "wq_waiting (wq_Done key (wq_AddRateLimited key q1)) =
                     (if wq_shuttingDown q1 then wq_waiting q1 else wq_waiting q1 @ [key])"
      by (simp add: wq_Done_def wq_AddRateLimited_def Let_def)
    moreover have "w_handledErrors (onQueue (wq_Done key) (onQueue (wq_AddRateLimited key) w1))
                     = w_handledErrors w"
      by (simp add: onQueue_def h)
    ultimately show ?thesis using True by simp
  next
    case False
    have "processNextRecovery env w =
            Some (True, onQueue (wq_Done key) (HandleError err (onQueue (wq_Forget key) w1)))"
      using assms(1) inj False q unfolding inj_def by (simp add: processNextRecovery_def)
    moreover have "w_recQueue (onQueue (wq_Done key) (HandleError err (onQueue (wq_Forget key) w1)))
                     = wq_Done key (wq_Forget key q1)"
      by (simp add: onQueue_def HandleError_def q)
    moreover have "wq_failures (wq_Done key (wq_Forget key q1)) key = 0"
      "wq_waiting (wq_Done key (wq_Forget key q1)) = wq_waiting q1"
      "wq_queue (wq_Done key (wq_Forget key q1)) = wq_queue q1"
      using nd by (simp_all add: wq_Done_def wq_Forget_def Let_def)
    moreover have "w_handledErrors (onQueue (wq_Done key) (HandleError err (onQueue (wq_Forget key) w1)))
                     = w_handledErrors w @ [err]"
      by (simp add: onQueue_def HandleError_def h)
    ultimately show ?thesis using False by simp
  qed
qed

lemma ex_phase_unset:
  "rst_Phase (rec_Status (exRecovery [] r)) \<noteq> RecoverySucceeded"
  "rst_Phase (rec_Status (exRecovery [] r)) \<noteq> RecoveryRunning"
  by (simp_all add: exRecovery_def RecoverySucceeded_def RecoveryRunning_def)

lemma ex_rec_meta:
  "om_Namespace (rec_Meta (exRecovery p r)) = ''default''"
  "om_Name (rec_Meta (exRecovery p r)) = ''demo''"
  "rcs_Restic (rec_Spec (exRecovery p r)) = r"
  by (simp_all add: exRecovery_def exMeta_def)

lemma ex_env:
  "env_Restics_Get exEnv ''default'' ''statefulset-restic'' = Inr (exRestic (Some exLocalSpec))"
  "env_Restics_Get exEnv ''default'' ''missing-restic'' = Inl exNotFound"
  "env_Restic_IsValid exEnv r = None"
  "env_ensureRecoveryRBAC exEnv n ns = None"
  "env_Jobs_Create_fault exEnv j = None"
  "opt_EnableRBAC (env_options exEnv)"
  "opt_MaxNumRequeues (env_options exEnv) = 5"
  "env_recIndexer_GetByKey exEnv ''default/demo'' = Inr (Some (exRecovery [] ''missing-restic''))"
  by (simp_all add: exEnv_def exOptions_def)

lemma ex_world:
  "w_jobs (exWorld jobs q) = jobs" "w_calls (exWorld jobs q) = []"
  "w_events (exWorld jobs q) = []" "w_recoveryPhase (exWorld jobs q) = Map.empty"
  "w_handledErrors (exWorld jobs q) = []" "w_recQueue (exWorld jobs q) = q"
  by (simp_all add: exWorld_def)

lemma exJob_key: "jobKey exJob = (''default'', ''stash-demo'')" "j_Name exJob = ''stash-demo''"
  by (simp_all add: exJob_def jobKey_def derivedJob_name ex_rec_meta)

lemma ex_already_exists_run:
  "fst (runRecoveryJob exEnv (exRecovery [] ''statefulset-restic'') (exWorld [exJob] q)) = None"
  "w_calls (snd (runRecoveryJob exEnv (exRecovery [] ''statefulset-restic'') (exWorld [exJob] q))) =
     [CallResticsGet ''default'' ''statefulset-restic'' None,
      CallEnsureRecoveryRBAC ''stash-demo'' ''default'' None,
      CallJobsCreate exJob
        (Some (StatusError StatusReasonAlreadyExists ''jobs.batch stash-demo already exists''))]"
  by (simp_all add: runRecoveryJob_unfold ex_phase_unset ex_rec_meta ex_env Let_def
        Restics_Get_def ensureRecoveryRBAC_def Jobs_Create_def ex_world exJob_key
        exJob_def [symmetric] IsAlreadyExists_def)

theorem runRecoveryJob_short_circuit_witness:
  "(rst_Phase (rec_Status (exRecovery ''Running'' ''statefulset-restic'')) = RecoverySucceeded \<or>
    rst_Phase (rec_Status (exRecovery ''Running'' ''statefulset-restic'')) = RecoveryRunning) \<and>
   runRecoveryJob exEnv (exRecovery ''Running'' ''statefulset-restic'') (exWorld [] (exQueue [] 0))
     = (None, exWorld [] (exQueue [] 0))"
proof -
  have h: "rst_Phase (rec_Status (exRecovery ''Running'' ''statefulset-restic'')) = RecoverySucceeded \<or>
    rst_Phase (rec_Status (exRecovery ''Running'' ''statefulset-restic'')) = RecoveryRunning"
    by (simp add: exRecovery_def RecoveryRunning_def)
  from runRecoveryJob_short_circuit [OF h, of exEnv "exWorld [] (exQueue [] 0)"] h
  show ?thesis by simp
qed

theorem runRecoveryJob_already_exists_witness:
  "CallJobsCreate exJob
      (Some (StatusError StatusReasonAlreadyExists ''jobs.batch stash-demo already exists''))
     \<in> set (newCalls (exWorld [exJob] (exQueue [] 0))
          (snd (runRecoveryJob exEnv (exRecovery [] ''statefulset-restic'')
                  (exWorld [exJob] (exQueue [] 0))))) \<and>
   IsAlreadyExists (StatusError StatusReasonAlreadyExists ''jobs.batch stash-demo already exists'') \<and>
   jobKey exJob \<in> set (map jobKey (w_jobs (exWorld [exJob] (exQueue [] 0)))) \<and>
   recKey (exRecovery ''Failed'' ''missing-restic'')
     = recKey (exRecovery [] ''statefulset-restic'') \<and>
   fst (runRecoveryJob exEnv (exRecovery [] ''statefulset-restic'')
          (exWorld [exJob] (exQueue [] 0))) = None \<and>
   w_jobs (snd (runRecoveryJob exEnv (exRecovery [] ''statefulset-restic'')
          (exWorld [exJob] (exQueue [] 0)))) = [exJob] \<and>
   w_jobs (reconcileAll [(exEnv, exRecovery [] ''statefulset-restic''),
                         (exEnv, exRecovery ''Failed'' ''missing-restic'')]
        (snd (runRecoveryJob exEnv (exRecovery [] ''statefulset-restic'')
                (exWorld [exJob] (exQueue [] 0))))) = [exJob]"
proof -
  have h1: "CallJobsCreate exJob
      (Some (StatusError StatusReasonAlreadyExists ''jobs.batch stash-demo already exists''))
     \<in> set (newCalls (exWorld [exJob] (exQueue [] 0))
          (snd (runRecoveryJob exEnv (exRecovery [] ''statefulset-restic'')
                  (exWorld [exJob] (exQueue [] 0)))))"
    by (simp add: newCalls_def ex_already_exists_run ex_world)
  have h2: "IsAlreadyExists
      (StatusError StatusReasonAlreadyExists ''jobs.batch stash-demo already exists'')"
    by (simp add: IsAlreadyExists_def)
  have h3: "jobKey exJob \<in> set (map jobKey (w_jobs (exWorld [exJob] (exQueue [] 0))))"
    by (simp add: ex_world)
  have h4: "\<forall>x \<in> set [(exEnv, exRecovery [] ''statefulset-restic''),
               (exEnv, exRecovery ''Failed'' ''missing-restic'')].
       recKey (snd x) = recKey (exRecovery [] ''statefulset-restic'')"
    by (simp add: recKey_def ex_rec_meta)
  note t = runRecoveryJob_already_exists [OF h1 h2]
  from t h3 h4 have "w_jobs (reconcileAll [(exEnv, exRecovery [] ''statefulset-restic''),
                         (exEnv, exRecovery ''Failed'' ''missing-restic'')]
        (snd (runRecoveryJob exEnv (exRecovery [] ''statefulset-restic'')
                (exWorld [exJob] (exQueue [] 0))))) = w_jobs (exWorld [exJob] (exQueue [] 0))"
    by blast
  from this t h1 h2 h3 h4 show ?thesis
    by (simp add: ex_world)
qed

theorem already_exists_returns_before_success_witness:
  "CallJobsCreate exJob
      (Some (StatusError StatusReasonAlreadyExists ''jobs.batch stash-demo already exists''))
     \<in> set (newCalls (exWorld [exJob] (exQueue [] 0))
          (snd (runRecoveryJob exEnv (exRecovery ''Failed'' ''statefulset-restic'')
                  (exWorld [exJob] (exQueue [] 0))))) \<and>
   IsAlreadyExists (StatusError StatusReasonAlreadyExists ''jobs.batch stash-demo already exists'') \<and>
   w_events (snd (runRecoveryJob exEnv (exRecovery ''Failed'' ''statefulset-restic'')
          (exWorld [exJob] (exQueue [] 0)))) = [] \<and>
   w_recoveryPhase (snd (runRecoveryJob exEnv (exRecovery ''Failed'' ''statefulset-restic'')
          (exWorld [exJob] (exQueue [] 0)))) = Map.empty"
proof -
  have ph: "rst_Phase (rec_Status (exRecovery ''Failed'' r)) \<noteq> RecoverySucceeded"
    "rst_Phase (rec_Status (exRecovery ''Failed'' r)) \<noteq> RecoveryRunning" for r
    by (simp_all add: exRecovery_def RecoverySucceeded_def RecoveryRunning_def)
  have j: "derivedJob exEnv (exRecovery ''Failed'' ''statefulset-restic'')
             (exRestic (Some exLocalSpec)) = exJob"
    by (simp add: exJob_def derivedJob_def CreateRecoveryJob_def exRecovery_def)
  have c: "w_calls (snd (runRecoveryJob exEnv (exRecovery ''Failed'' ''statefulset-restic'')
             (exWorld [exJob] (exQueue [] 0)))) =
     [CallResticsGet ''default'' ''statefulset-restic'' None,
      CallEnsureRecoveryRBAC ''stash-demo'' ''default'' None,
      CallJobsCreate exJob
        (Some (StatusError StatusReasonAlreadyExists ''jobs.batch stash-demo already exists''))]"
    by (simp add: runRecoveryJob_unfold ph ex_rec_meta ex_env Let_def
        Restics_Get_def ensureRecoveryRBAC_def Jobs_Create_def ex_world exJob_key j
        IsAlreadyExists_def)
  have h1: "CallJobsCreate exJob
      (Some (StatusError StatusReasonAlreadyExists ''jobs.batch stash-demo already exists''))
     \<in> set (newCalls (exWorld [exJob] (exQueue [] 0))
          (snd (runRecoveryJob exEnv (exRecovery ''Failed'' ''statefulset-restic'')
                  (exWorld [exJob] (exQueue [] 0)))))"
    by (simp add: newCalls_def c ex_world)
  have h2: "IsAlreadyExists
      (StatusError StatusReasonAlreadyExists ''jobs.batch stash-demo already exists'')"
    by (simp add: IsAlreadyExists_def)
  from already_exists_returns_before_success [OF h1 h2] h1 h2 show ?thesis
    by (simp add: ex_world)
qed

theorem runRecoveryJob_policy_unresolved_witness:
  "rst_Phase (rec_Status (exRecovery [] ''missing-restic'')) \<noteq> RecoverySucceeded \<and>
   rst_Phase (rec_Status (exRecovery [] ''missing-restic'')) \<noteq> RecoveryRunning \<and>
   env_Restics_Get exEnv (om_Namespace (rec_Meta (exRecovery [] ''missing-restic'')))
      (rcs_Restic (rec_Spec (exRecovery [] ''missing-restic''))) = Inl exNotFound \<and>
   fst (runRecoveryJob exEnv (exRecovery [] ''missing-restic'') (exWorld [] (exQueue [] 0)))
     = Some exNotFound \<and>
   w_recoveryPhase (snd (runRecoveryJob exEnv (exRecovery [] ''missing-restic'')
       (exWorld [] (exQueue [] 0)))) (''default'', ''demo'') = Some ''Failed'' \<and>
   map e_Type (w_events (snd (runRecoveryJob exEnv (exRecovery [] ''missing-restic'')
       (exWorld [] (exQueue [] 0))))) = [EventTypeWarning]"
proof -
  have h3: "env_Restics_Get exEnv (om_Namespace (rec_Meta (exRecovery [] ''missing-restic'')))
      (rcs_Restic (rec_Spec (exRecovery [] ''missing-restic''))) = Inl exNotFound"
    by (simp add: ex_rec_meta ex_env)
  from runRecoveryJob_policy_unresolved [OF ex_phase_unset [of "''missing-restic''"] disjI1 [OF h3],
      of "exWorld [] (exQueue [] 0)"] h3 ex_phase_unset [of "''missing-restic''"]
  show ?thesis
    by (simp add: newEvents_def ex_world recKey_def ex_rec_meta RecoveryFailed_def)
qed

theorem processNextRecovery_bounded_retry_witness:
  "wq_Get (w_recQueue (exWorld [] (exQueue [''default/demo''] 5))) =
     Some (Some ''default/demo'', False,
           (exQueue [] 5)\<lparr>wq_processing := [''default/demo'']\<rparr>) \<and>
   fst (runRecoveryInjector exEnv ''default/demo''
          ((exWorld [] (exQueue [''default/demo''] 5))
             \<lparr>w_recQueue := (exQueue [] 5)\<lparr>wq_processing := [''default/demo'']\<rparr>\<rparr>))
     = Some exNotFound \<and>
   (\<exists>w'. processNextRecovery exEnv (exWorld [] (exQueue [''default/demo''] 5)) = Some (True, w') \<and>
         w_handledErrors w' = [exNotFound] \<and>
         wq_waiting (w_recQueue w') = [] \<and> wq_queue (w_recQueue w') = [] \<and>
         wq_failures (w_recQueue w') ''default/demo'' = 0)"
proof -
  have h1: "wq_Get (w_recQueue (exWorld [] (exQueue [''default/demo''] 5))) =
     Some (Some ''default/demo'', False,
           (exQueue [] 5)\<lparr>wq_processing := [''default/demo'']\<rparr>)"
    by (simp add: wq_Get_def exWorld_def exQueue_def)
  have h2: "fst (runRecoveryInjector exEnv ''default/demo''
          ((exWorld [] (exQueue [''default/demo''] 5))
             \<lparr>w_recQueue := (exQueue [] 5)\<lparr>wq_processing := [''default/demo'']\<rparr>\<rparr>))
     = Some exNotFound"
    by (simp add: runRecoveryInjector_def ex_env runRecoveryJob_unfold ex_phase_unset
          ex_rec_meta Let_def Restics_Get_def)
  have n: "\<not> wq_NumRequeues ((exQueue [] 5)\<lparr>wq_processing := [''default/demo'']\<rparr>)
              ''default/demo'' < opt_MaxNumRequeues (env_options exEnv)"
    by (simp add: wq_NumRequeues_def exQueue_def ex_env)
  from processNextRecovery_bounded_retry [OF h1 h2] n h1 h2 show ?thesis
    by (auto simp add: ex_world exQueue_def)
qed

section \<open>Properties of the comparisons, the update handler and the workload check\<close>

lemma Dec_Cmp_zero_iff:
  "Dec_Cmp (m1, e1) (m2, e2) = 0 \<longleftrightarrow>
     (of_int m1 * 10 powi e1 :: rat) = of_int m2 * 10 powi e2"
proof -
  define e where "e = min e1 e2"
  define a where "a = m1 * 10 ^ nat (e1 - e)"
  define b where "b = m2 * 10 ^ nat (e2 - e)"
  have ge: "0 \<le> e1 - e" "0 \<le> e2 - e" by (simp_all add: e_def)
  have p: "(10::rat) powi e1 = 10 powi (e1 - e) * 10 powi e"
    "(10::rat) powi e2 = 10 powi (e2 - e) * 10 powi e"
    by (simp_all add: power_int_add [symmetric])
  have n: "(10::rat) powi (e1 - e) = 10 ^ nat (e1 - e)" "(10::rat) powi (e2 - e) = 10 ^ nat (e2 - e)"
    using ge by (simp_all add: power_int_def)
  have A: "(of_int m1 * 10 powi e1 :: rat) = of_int a * 10 powi e"
    unfolding p(1) n(1) a_def by simp
  have B: "(of_int m2 * 10 powi e2 :: rat) = of_int b * 10 powi e"
    unfolding p(2) n(2) b_def by simp
  have nz: "(10::rat) powi e \<noteq> 0" by simp
  have "Dec_Cmp (m1, e1) (m2, e2) = 0 \<longleftrightarrow> a = b"
    by (simp add: Dec_Cmp_def Let_def a_def b_def e_def)
  also have "\<dots> \<longleftrightarrow> (of_int a :: rat) = of_int b" by simp
  also have "\<dots> \<longleftrightarrow> (of_int a * 10 powi e :: rat) = of_int b * 10 powi e"
    using nz by simp
  finally show ?thesis unfolding A B .
qed

lemma Quantity_equal_iff: "Quantity_equal x y \<longleftrightarrow> Quantity_num x = Quantity_num y"
  unfolding Quantity_equal_def Quantity_Cmp_def Quantity_num_def
  by (cases "Quantity_AsDec x"; cases "Quantity_AsDec y") (simp add: Dec_Cmp_zero_iff)

lemma Quantity_equal_refl: "Quantity_equal x x"
  by (simp add: Quantity_equal_iff)

lemma map_of_key: "k \<in> set (map fst m) \<Longrightarrow> \<exists>v. map_of m k = Some v"
  by (induction m) auto

lemma map_of_no_key: "k \<notin> set (map fst m) \<Longrightarrow> map_of m k = None"
  by (induction m) auto

lemma entries_equal_iff:
  "entries_equal eq a b \<longleftrightarrow> (\<forall>k. rel_option eq (map_of a k) (map_of b k))"
proof
  assume e: "entries_equal eq a b"
  show "\<forall>k. rel_option eq (map_of a k) (map_of b k)"
  proof
    fix k
    show "rel_option eq (map_of a k) (map_of b k)"
    proof (cases "k \<in> set (map fst a)")
      case True
      with e have "case (map_of a k, map_of b k) of (Some x, Some y) \<Rightarrow> eq x y | _ \<Rightarrow> False"
        unfolding entries_equal_def list_all_iff by blast
      then show ?thesis by (auto split: option.splits)
    next
      case False
      then have na: "map_of a k = None" by (rule map_of_no_key)
      have "k \<notin> set (map fst b)"
      proof
        assume "k \<in> set (map fst b)"
        with e have "map_of a k \<noteq> None" unfolding entries_equal_def list_all_iff by blast
        with na show False by simp
      qed
      then have "map_of b k = None" by (rule map_of_no_key)
      with na show ?thesis by simp
    qed
  qed
next
  assume r: "\<forall>k. rel_option eq (map_of a k) (map_of b k)"
  have 1: "case (map_of a k, map_of b k) of (Some x, Some y) \<Rightarrow> eq x y | _ \<Rightarrow> False"
    if "k \<in> set (map fst a)" for k
  proof -
    from map_of_key [OF that] obtain x where x: "map_of a k = Some x" by blast
    from r have "rel_option eq (map_of a k) (map_of b k)" by blast
    with x show ?thesis by (cases "map_of b k") simp_all
  qed
  have 2: "map_of a k \<noteq> None" if "k \<in> set (map fst b)" for k
  proof -
    from map_of_key [OF that] obtain y where y: "map_of b k = Some y" by blast
    from r have "rel_option eq (map_of a k) (map_of b k)" by blast
    with y show ?thesis by (cases "map_of a k") simp_all
  qed
  from 1 2 show "entries_equal eq a b" unfolding entries_equal_def list_all_iff by blast
qed

lemma rel_option_value:
  assumes "\<And>x y. R x y \<longleftrightarrow> f x = f y"
  shows "rel_option R a b \<longleftrightarrow> map_option f a = map_option f b"
  by (cases a; cases b) (simp_all add: assms)

lemma entries_equal_value:
  assumes "\<And>x y. eq x y \<longleftrightarrow> f x = f y"
  shows "entries_equal eq a b \<longleftrightarrow> (map_option f \<circ> map_of a) = (map_option f \<circ> map_of b)"
  unfolding entries_equal_iff fun_eq_iff comp_def
  by (simp add: rel_option_value [of eq f, OF assms])

lemma go_map_equal_value:
  assumes "\<And>x y. eq x y \<longleftrightarrow> f x = f y"
  shows "go_map_equal eq a b \<longleftrightarrow>
           map_option (\<lambda>al. map_option f \<circ> map_of al) a = map_option (\<lambda>al. map_option f \<circ> map_of al) b"
  by (cases a; cases b) (simp_all add: go_map_equal_def entries_equal_value [of eq f, OF assms])

lemma ResourceList_equal_value:
  "go_map_equal Quantity_equal a b \<longleftrightarrow> ResourceList_value a = ResourceList_value b"
  unfolding ResourceList_value_def by (rule go_map_equal_value) (rule Quantity_equal_iff)

lemma MatchLabels_equal_value:
  fixes a b :: "(string \<times> string) list option"
  shows "go_map_equal (=) a b \<longleftrightarrow> map_option map_of a = map_option map_of b"
proof -
  have "entries_equal (=) x y \<longleftrightarrow> map_of x = map_of y" for x y :: "(string \<times> string) list"
    unfolding entries_equal_iff fun_eq_iff by (simp add: option.rel_eq)
  then show ?thesis by (cases a; cases b) (simp_all add: go_map_equal_def)
qed

lemma EmptyDir_equal_value: "EmptyDir_equal a b \<longleftrightarrow> EmptyDir_value a = EmptyDir_value b"
  by (simp add: EmptyDir_equal_def EmptyDir_value_def
        rel_option_value [of Quantity_equal Quantity_num, OF Quantity_equal_iff])

lemma VolumeSource_equal_value:
  "VolumeSource_equal a b \<longleftrightarrow> VolumeSource_value a = VolumeSource_value b"
  by (simp add: VolumeSource_equal_def VolumeSource_value_def
        rel_option_value [of EmptyDir_equal EmptyDir_value, OF EmptyDir_equal_value])

lemma LocalSpec_equal_value: "LocalSpec_equal a b \<longleftrightarrow> LocalSpec_value a = LocalSpec_value b"
  by (simp add: LocalSpec_equal_def LocalSpec_value_def VolumeSource_equal_value)

lemma Backend_equal_value: "Backend_equal a b \<longleftrightarrow> Backend_value a = Backend_value b"
  by (simp add: Backend_equal_def Backend_value_def
        rel_option_value [of LocalSpec_equal LocalSpec_value, OF LocalSpec_equal_value])

lemma LabelSelector_equal_value:
  "LabelSelector_equal a b \<longleftrightarrow> LabelSelector_value a = LabelSelector_value b"
  by (simp add: LabelSelector_equal_def LabelSelector_value_def MatchLabels_equal_value)

lemma ResticSpec_equal_value:
  "ResticSpec_equal a b \<longleftrightarrow> ResticSpec_value a = ResticSpec_value b"
  by (simp add: ResticSpec_equal_def ResticSpec_value_def LabelSelector_equal_value
        Backend_equal_value ResourceRequirements_equal_def ResourceList_equal_value)

text \<open>
  Claim C5. For every pair of Restic pointers, nil or not, \<open>ResticEqual\<close> holds exactly when
  both are nil or neither is and the two specs say the same with their quantities read
  as numbers: metadata plays no part, every member of the spec does, and two quantities
  count as equal exactly when they stand for the same number, whatever their stored
  form.
\<close>

theorem ResticEqual_spec_by_quantity_value:
  "(ResticEqual old new \<longleftrightarrow>
      map_option (\<lambda>r. ResticSpec_value (r_Spec r)) old =
      map_option (\<lambda>r. ResticSpec_value (r_Spec r)) new) \<and>
   ResticEqual (map_option (\<lambda>r. r\<lparr>r_Meta := m\<rparr>) old) (map_option (\<lambda>r. r\<lparr>r_Meta := m'\<rparr>) new)
     = ResticEqual old new \<and>
   (Quantity_equal q q' \<longleftrightarrow> Quantity_num q = Quantity_num q')"
proof -
  have 1: "ResticEqual x y \<longleftrightarrow>
      map_option (\<lambda>r. ResticSpec_value (r_Spec r)) x =
      map_option (\<lambda>r. ResticSpec_value (r_Spec r)) y" for x y
    unfolding ResticEqual_def Let_def
    by (simp add: rel_option_value [of ResticSpec_equal ResticSpec_value, OF ResticSpec_equal_value]
          option.map_comp comp_def)
  have 2: "map_option (\<lambda>r. ResticSpec_value (r_Spec r)) (map_option (\<lambda>r. r\<lparr>r_Meta := n\<rparr>) x)
             = map_option (\<lambda>r. ResticSpec_value (r_Spec r)) x" for n and x :: "Restic option"
    by (cases x) simp_all
  show ?thesis unfolding 1 2 by (simp add: Quantity_equal_iff)
qed

lemma UpdateFunc_Recovery:
  "UpdateFunc env (ObjRecovery old) (ObjRecovery new) w =
     (case env_Recovery_IsValid env new of
        Some err \<Rightarrow>
          recorder_Event (Recovery_ObjectReference (env_api env) new)
            EventTypeWarning EventReasonInvalidRecovery (''Reason '' @ Error err) w
      | None \<Rightarrow>
          if rec_Spec old = rec_Spec new then w
          else onQueue (wq_Add (MetaNamespaceKey (rec_Meta new))) w)"
  by (simp add: UpdateFunc_def RecoveryEqual_def split: option.splits)

lemma UpdateFunc_status_metadata_only:
  "UpdateFunc env (ObjRecovery old)
     (ObjRecovery (old\<lparr>rec_Meta := m, rec_Status := st\<rparr>)) w =
   (case env_Recovery_IsValid env (old\<lparr>rec_Meta := m, rec_Status := st\<rparr>) of
      Some err \<Rightarrow>
        recorder_Event (Recovery_ObjectReference (env_api env) (old\<lparr>rec_Meta := m, rec_Status := st\<rparr>))
          EventTypeWarning EventReasonInvalidRecovery (''Reason '' @ Error err) w
    | None \<Rightarrow> w)"
  by (simp add: UpdateFunc_Recovery split: option.splits)

text \<open>
  Claim C4, at an input where the code departs from it. The old and the new Recovery
  are valid and differ only in the size limit of one volume, written \<open>1G\<close> in the old and
  \<open>1000M\<close> in the new: \<open>Cmp\<close> finds the two quantities equal, and yet \<open>UpdateFunc\<close> adds the
  key to the empty queue.
\<close>

theorem UpdateFunc_reformatted_quantity_enqueued:
  "Quantity_Cmp exQuantity_1G exQuantity_1000M = 0 \<and>
   env_Recovery_IsValid exEnv (exRecoverySized exQuantity_1000M) = None \<and>
   wq_queue (w_recQueue (exWorld [] (exQueue [] 0))) = [] \<and>
   wq_queue (w_recQueue
     (UpdateFunc exEnv (ObjRecovery (exRecoverySized exQuantity_1G))
        (ObjRecovery (exRecoverySized exQuantity_1000M)) (exWorld [] (exQueue [] 0))))
     = [''default/demo'']"
proof -
  have c: "Quantity_Cmp exQuantity_1G exQuantity_1000M = 0"
    by (simp add: Quantity_Cmp_def Dec_Cmp_def Quantity_AsDec_def exQuantity_1G_def
          exQuantity_1000M_def)
  have v: "env_Recovery_IsValid exEnv (exRecoverySized exQuantity_1000M) = None"
    by (simp add: exEnv_def exRecoverySized_def)
  have d: "rec_Spec (exRecoverySized exQuantity_1G) \<noteq> rec_Spec (exRecoverySized exQuantity_1000M)"
    by (simp add: exRecoverySized_def exQuantity_1G_def exQuantity_1000M_def)
  have k: "MetaNamespaceKey (rec_Meta (exRecoverySized exQuantity_1000M)) = ''default/demo''"
    by (simp add: MetaNamespaceKey_def exRecoverySized_def exMeta_def)
  show ?thesis
    by (simp add: c v UpdateFunc_Recovery d k onQueue_def wq_Add_def exWorld_def exQueue_def)
qed

theorem ResticEqual_spec_by_quantity_value_witness:
  "exQuantity_1Gi \<noteq> exQuantity_1024Mi \<and>
   ResticEqual (Some (exResticRequesting ''uid-1'' exQuantity_1Gi))
               (Some (exResticRequesting ''uid-2'' exQuantity_1024Mi)) \<and>
   \<not> ResticEqual (Some (exResticRequesting ''uid-1'' exQuantity_1Gi))
                 (Some (exResticRequesting ''uid-1'' exQuantity_2Gi)) \<and>
   \<not> ResticEqual (Some (exResticRequesting ''uid-1'' exQuantity_1Gi)) None \<and>
   ResticEqual None None"
proof -
  have d: "exQuantity_1Gi \<noteq> exQuantity_1024Mi"
    by (simp add: exQuantity_1Gi_def exQuantity_1024Mi_def)
  have n: "Quantity_num exQuantity_1Gi = 1073741824" "Quantity_num exQuantity_1024Mi = 1073741824"
    "Quantity_num exQuantity_2Gi = 2147483648"
    by (simp_all add: Quantity_num_def Quantity_AsDec_def exQuantity_1Gi_def
          exQuantity_1024Mi_def exQuantity_2Gi_def)
  have v: "ResticSpec_value (r_Spec (exResticRequesting u q)) =
             ResticSpec_value (r_Spec (exResticRequesting u' q')) \<longleftrightarrow>
           Quantity_num q = Quantity_num q'" for u u' q q'
    by (simp add: ResticSpec_value_def exResticRequesting_def ResourceList_value_def fun_eq_iff)
  from ResticEqual_spec_by_quantity_value
         [of "Some (exResticRequesting ''uid-1'' exQuantity_1Gi)"
             "Some (exResticRequesting ''uid-2'' exQuantity_1024Mi)"]
       ResticEqual_spec_by_quantity_value
         [of "Some (exResticRequesting ''uid-1'' exQuantity_1Gi)"
             "Some (exResticRequesting ''uid-1'' exQuantity_2Gi)"]
       ResticEqual_spec_by_quantity_value
         [of "Some (exResticRequesting ''uid-1'' exQuantity_1Gi)" None]
       ResticEqual_spec_by_quantity_value [of None None]
       d
  show ?thesis by (simp add: v n)
qed

text \<open>
  What the code of \<open>WorkloadExists\<close> settles by itself. An error of \<open>Canonicalize\<close> is
  returned as it is. A reference that \<open>Canonicalize\<close> accepts and leaves with a kind that is
  none of the five recognized ones runs into the \<open>default\<close> branch, and the result is nil.
  Which references \<open>Canonicalize\<close> accepts is not settled here.
\<close>

lemma WorkloadExists_after_Canonicalize:
  "(\<forall>workload. Canonicalize workload0 = Inr workload \<longrightarrow>
       ltr_Kind workload \<notin> set recognizedKinds \<longrightarrow>
       WorkloadExists Canonicalize k8sClient namespace workload0 = None) \<and>
   (\<forall>err. Canonicalize workload0 = Inl err \<longrightarrow>
       WorkloadExists Canonicalize k8sClient namespace workload0 = Some err)"
  by (simp add: WorkloadExists_def recognizedKinds_def)

end
